theory Spec2Isabelle
  imports Complex_Main
begin

section \<open>Faults\<close>

text \<open>
  Every fault of \<^verbatim>\<open>bgrid.py\<close> is a Python exception.  The model names each raise
  site after the fault taxonomy of the specification; the Python class is noted beside it.
\<close>

datatype error =
    EmptyGridFault             \<comment> \<open>ValueError: grid is empty\<close>
  | AmbiguousResolutionFault   \<comment> \<open>ValueError: you must specify a resolution\<close>
  | UndefinedDepthFault        \<comment> \<open>ValueError: mean_depth is None\<close>
  | MetadataConflictFault      \<comment> \<open>ValueError: coordinate system or vertical reference must match\<close>
  | InvalidInputFault          \<comment> \<open>ValueError raised by input validation\<close>
  | ShapeFault                 \<comment> \<open>AssertionError or numpy shape mismatch\<close>
  | TypeError                  \<comment> \<open>Python TypeError\<close>
  | AttributeError             \<comment> \<open>Python AttributeError\<close>
  | IndexError                 \<comment> \<open>Python IndexError\<close>
  | KeyError                   \<comment> \<open>Python KeyError\<close>
  | MissingFieldError          \<comment> \<open>numpy ValueError: no field of that name\<close>
  | EmptyReductionError        \<comment> \<open>numpy ValueError: zero-size array to reduction operation\<close>
  | ZeroDivisionError          \<comment> \<open>Python ZeroDivisionError\<close>

section \<open>Resolution selector\<close>

text \<open>
  \<^verbatim>\<open>depth_resolution_lookup\<close>: a Python dict, which keeps insertion order; the
  association list keeps the same order.
\<close>

definition depth_resolution_lookup :: "(real \<times> real) list" where
  "depth_resolution_lookup =
     [(20, 0.5), (40, 1.0), (60, 2.0), (80, 4.0), (160, 8.0), (320, 16.0), (640, 32.0),
      (1280, 64.0), (2560, 128.0), (5120, 256.0), (10240, 512.0), (20480, 1024.0)]"

text \<open>
  \<^verbatim>\<open>np.argmax\<close> on a boolean array: the index of the first \<open>True\<close>, and 0 when
  no element is \<open>True\<close> (every element is then a maximum, and the first one wins).
\<close>

fun first_true :: "bool list \<Rightarrow> nat option" where
  "first_true [] = None"
| "first_true (b # bs) =
     (if b then Some 0 else (case first_true bs of None \<Rightarrow> None | Some i \<Rightarrow> Some (Suc i)))"

definition np_argmax :: "bool list \<Rightarrow> nat" where
  "np_argmax bs = (case first_true bs of None \<Rightarrow> 0 | Some i \<Rightarrow> i)"

definition dict_getitem :: "('k \<times> 'v) list \<Rightarrow> 'k \<Rightarrow> error + 'v" where
  "dict_getitem d k = (case map_of d k of None \<Rightarrow> Inl KeyError | Some v \<Rightarrow> Inr v)"

text \<open>
  \<^verbatim>\<open>BathyGrid._calculate_resolution\<close>, as a function of \<^verbatim>\<open>self.mean_depth\<close>.
\<close>

definition calculate_resolution :: "real option \<Rightarrow> error + real" where
  "calculate_resolution mean_depth =
     (case mean_depth of
        None \<Rightarrow> Inl UndefinedDepthFault
      | Some d \<Rightarrow>
          (let dpth_keys = map fst depth_resolution_lookup;
               range_index = np_argmax (map (\<lambda>k. k - d > 0) dpth_keys)
           in dict_getitem depth_resolution_lookup (dpth_keys ! range_index)))"

text \<open>
  The selection rule in the words of the specification: \<open>r\<close> is the resolution paired
  with the smallest threshold strictly greater than \<open>d\<close>.
\<close>

definition selection_rule :: "real \<Rightarrow> real \<Rightarrow> bool" where
  "selection_rule d r \<longleftrightarrow>
     list_ex (\<lambda>(t, r'). r' = r \<and> d < t \<and>
                list_all (\<lambda>(t', _). d < t' \<longrightarrow> t \<le> t') depth_resolution_lookup)
             depth_resolution_lookup"

section \<open>Python and numpy helpers\<close>

text \<open>Sequencing of fallible steps: the first exception ends the computation.\<close>

definition sum_bind :: "error + 'a \<Rightarrow> ('a \<Rightarrow> error + 'b) \<Rightarrow> error + 'b" where
  "sum_bind r f = (case r of Inl e \<Rightarrow> Inl e | Inr v \<Rightarrow> f v)"

text \<open>
  A method that mutates \<^verbatim>\<open>self\<close> and may raise returns the exception, if any, and the
  state as the exception leaves it: what was assigned before the raise stays assigned.
\<close>

definition then_do :: "error option \<times> 's \<Rightarrow> ('s \<Rightarrow> error option \<times> 's) \<Rightarrow> error option \<times> 's" where
  "then_do r f = (case r of (None, s) \<Rightarrow> f s | (Some e, s) \<Rightarrow> (Some e, s))"

definition dict_setitem :: "('k \<times> 'v) list \<Rightarrow> 'k \<Rightarrow> 'v \<Rightarrow> ('k \<times> 'v) list" where
  "dict_setitem d k v =
     (if k \<in> set (map fst d) then map (\<lambda>(k', v'). if k' = k then (k', v) else (k', v')) d
      else d @ [(k, v)])"

definition dict_pop :: "('k \<times> 'v) list \<Rightarrow> 'k \<Rightarrow> ('k \<times> 'v) list" where
  "dict_pop d k = filter (\<lambda>(k', _). k' \<noteq> k) d"

definition dict_contains :: "('k \<times> 'v) list \<Rightarrow> 'k \<Rightarrow> bool" where
  "dict_contains d k \<longleftrightarrow> k \<in> set (map fst d)"

text \<open>\<^verbatim>\<open>int(epsg)\<close> for an argument annotated \<^verbatim>\<open>int = None\<close>.\<close>

definition py_int :: "int option \<Rightarrow> error + int" where
  "py_int v = (case v of None \<Rightarrow> Inl TypeError | Some i \<Rightarrow> Inr i)"

text \<open>Truth values of the optional attributes the code tests with \<^verbatim>\<open>if x\<close>.\<close>

definition truthy_int :: "int option \<Rightarrow> bool" where
  "truthy_int v \<longleftrightarrow> (case v of None \<Rightarrow> False | Some i \<Rightarrow> i \<noteq> 0)"

definition truthy_str :: "string option \<Rightarrow> bool" where
  "truthy_str v \<longleftrightarrow> (case v of None \<Rightarrow> False | Some s \<Rightarrow> s \<noteq> [])"

definition truthy_list :: "'a list option \<Rightarrow> bool" where
  "truthy_list v \<longleftrightarrow> (case v of None \<Rightarrow> False | Some xs \<Rightarrow> xs \<noteq> [])"

definition truthy_float :: "real option \<Rightarrow> bool" where
  "truthy_float v \<longleftrightarrow> (case v of None \<Rightarrow> False | Some r \<Rightarrow> r \<noteq> 0)"

text \<open>numpy reductions over one column.\<close>

definition np_any :: "real list \<Rightarrow> bool" where
  "np_any vs \<longleftrightarrow> list_ex (\<lambda>v. v \<noteq> 0) vs"

definition np_mean :: "real list \<Rightarrow> real" where
  "np_mean vs = sum_list vs / real (length vs)"

definition np_min :: "real list \<Rightarrow> error + real" where
  "np_min vs = (case vs of [] \<Rightarrow> Inl EmptyReductionError | v # ws \<Rightarrow> Inr (fold min ws v))"

definition np_max :: "real list \<Rightarrow> error + real" where
  "np_max vs = (case vs of [] \<Rightarrow> Inl EmptyReductionError | v # ws \<Rightarrow> Inr (fold max ws v))"

text \<open>\<^verbatim>\<open>np.sort(np.unique(xs))\<close>: the distinct values in ascending order.\<close>

definition np_sort_unique :: "'a::linorder list \<Rightarrow> 'a list" where
  "np_sort_unique xs = sort (remdups xs)"

text \<open>
  \<^verbatim>\<open>new[mask] = values\<close> on a flattened array: the values go to the true positions of
  the mask in order; a single value is broadcast; any other count mismatch raises.
\<close>

fun place_masked :: "bool list \<Rightarrow> 'a list \<Rightarrow> 'a list \<Rightarrow> 'a list" where
  "place_masked [] new vals = new"
| "place_masked (m # ms) [] vals = []"
| "place_masked (m # ms) (n # ns) vals =
     (if m then (case vals of [] \<Rightarrow> n # place_masked ms ns []
                 | v # vs \<Rightarrow> v # place_masked ms ns vs)
      else n # place_masked ms ns vals)"

definition masked_assign :: "'a list \<Rightarrow> bool list \<Rightarrow> 'a list \<Rightarrow> error + 'a list" where
  "masked_assign new msk vals =
     (let k = length (filter id msk) in
      if length msk \<noteq> length new then Inl IndexError
      else if length vals = k then Inr (place_masked msk new vals)
      else if length vals = 1 then Inr (place_masked msk new (replicate k (hd vals)))
      else Inl ShapeFault)"

section \<open>Input data\<close>

text \<open>
  The point set handed to \<^verbatim>\<open>add_points\<close>: its Python type, its named columns
  (\<^verbatim>\<open>dtype.names\<close> of a structured array or the variables of an xarray Dataset, in
  order; an unstructured array has none) and, for a Dataset, the number of dimensions.
\<close>

datatype array_type = NdArray | DaskArray | XrDataset | OtherType

record dataset =
  array_type :: array_type
  columns :: "(string \<times> real list) list"
  dims :: nat

definition column :: "dataset \<Rightarrow> string \<Rightarrow> error + real list" where
  "column d name =
     (case map_of (columns d) name of None \<Rightarrow> Inl MissingFieldError | Some vs \<Rightarrow> Inr vs)"

definition names :: "dataset \<Rightarrow> string list" where
  "names d = map fst (columns d)"

text \<open>\<^verbatim>\<open>data[point_mask]\<close>: the rows where the mask is true, in every column.\<close>

definition select_rows :: "bool list \<Rightarrow> dataset \<Rightarrow> dataset" where
  "select_rows msk d =
     d\<lparr>columns := map (\<lambda>(n, vs). (n, map snd (filter fst (zip msk vs)))) (columns d)\<rparr>"

text \<open>\<^verbatim>\<open>data.compute()\<close> turns a dask Array into a numpy array; a Dataset stays one.\<close>

definition compute :: "dataset \<Rightarrow> dataset" where
  "compute d = (if array_type d = DaskArray then d\<lparr>array_type := NdArray\<rparr> else d)"

section \<open>The grid and its collaborators\<close>

text \<open>
  The lattice geometry is kept by \<^verbatim>\<open>BaseGrid\<close> (module \<^verbatim>\<open>bathygrid.grids\<close>), which
  is absent from the sources.  The record holds the attributes of it that
  \<^verbatim>\<open>bgrid.py\<close> reads; \<open>tile_origins\<close> pairs the flattened \<^verbatim>\<open>tile_x_origin\<close> and
  \<^verbatim>\<open>tile_y_origin\<close> arrays, one entry per lattice slot.
\<close>

record lattice =
  min_x :: real
  min_y :: real
  max_x :: real
  max_y :: real
  tile_size :: real
  height :: real
  width :: real
  tile_origins :: "(real \<times> real) list"
  existing_tile_mask :: "bool list"

datatype grid_class = BathyGridClass | SRGridClass | VRGridTileClass

text \<open>
  The attributes of a \<^verbatim>\<open>BathyGrid\<close> instance.  \<open>tiles\<close> is the flattened (row-major)
  lattice of slots, \<open>None\<close> while no lattice is allocated; a slot is \<open>None\<close> or holds a
  tile.  \<open>container\<close> is the registry dict.  \<open>client\<close> is the handle of the distributed
  execution service, seen through its number of workers.
\<close>

record 'tile grid =
  grid_class :: grid_class
  lat :: lattice
  can_grow :: bool
  subtile_size :: real
  data :: "dataset option"
  container :: "(string \<times> string list) list"
  tiles :: "'tile option list option"
  mean_depth :: "real option"
  epsg :: "int option"
  vertical_reference :: "string option"
  resolutions :: "real list"
  layernames :: "string list"
  client :: "nat option"

text \<open>
  The methods of the absent \<^verbatim>\<open>BaseGrid\<close> and the functions of the absent
  \<^verbatim>\<open>bathygrid.utilities\<close> that \<^verbatim>\<open>bgrid.py\<close> calls are parameters of the model.
  They act on the lattice geometry only.
\<close>

record base_grid =
  init_from_extents :: "real \<Rightarrow> real \<Rightarrow> real \<Rightarrow> real \<Rightarrow> lattice \<Rightarrow> lattice"
  update_extents :: "real \<Rightarrow> real \<Rightarrow> real \<Rightarrow> real \<Rightarrow> lattice \<Rightarrow> lattice"
  bin2d_with_indices :: "real list \<Rightarrow> real list \<Rightarrow> lattice \<Rightarrow> nat list"
  tile_idx_to_row_col :: "lattice \<Rightarrow> nat \<Rightarrow> int \<times> int"
  dask_find_or_start_client :: nat

text \<open>
  A slot holds an \<^verbatim>\<open>SRTile\<close> or, in a \<^verbatim>\<open>VRGridTile\<close>, a nested \<^verbatim>\<open>BathyGrid\<close>.
  The lattice code calls either through the same methods; the record is that interface
  for one tile type \<open>'tile\<close>, with rasters of type \<open>'r\<close>:
  \<^item> \<open>build_tile\<close> is \<^verbatim>\<open>_build_tile\<close> of the owning class, given the owner's lattice,
    its \<^verbatim>\<open>subtile_size\<close> and the origin of the slot;
  \<^item> \<open>tile_cells\<close> reads the attribute \<^verbatim>\<open>tile.cells\<close> and answers the keys of that
    dict, or AttributeError where the object has no such attribute;
  \<^item> \<open>tile_subtiles\<close> is \<open>None\<close> unless \<^verbatim>\<open>isinstance(tile, BathyGrid)\<close>; for a nested
    grid it is \<^verbatim>\<open>tile.tiles\<close>, each occupied sub-slot shown by what reading
    \<^verbatim>\<open>subtile.cells\<close> answers.
\<close>

record ('tile, 'r) tile_ops =
  build_tile :: "lattice \<Rightarrow> real \<Rightarrow> real \<Rightarrow> real \<Rightarrow> 'tile"
  tile_add_points :: "'tile \<Rightarrow> dataset \<Rightarrow> string \<Rightarrow> error option \<times> 'tile"
  tile_remove_points :: "'tile \<Rightarrow> string \<Rightarrow> 'tile"
  tile_is_empty :: "'tile \<Rightarrow> bool"
  tile_grid :: "'tile \<Rightarrow> string \<Rightarrow> real \<Rightarrow> bool \<Rightarrow> (error + real) \<times> 'tile"
  tile_cells :: "'tile \<Rightarrow> error + string list"
  tile_subtiles :: "'tile \<Rightarrow> (error + string list) option list option option"
  tile_get_layer_by_name :: "'tile \<Rightarrow> string \<Rightarrow> real \<Rightarrow> error + 'r"

text \<open>
  Modelled from the spec: \<^verbatim>\<open>BaseGrid.is_empty\<close>, the read-only emptiness check, is
  absent from the sources.  The specification calls a grid empty when it has no lattice
  or the lattice has no occupants.
\<close>

definition is_empty_grid :: "('tile, 'z) grid_scheme \<Rightarrow> bool" where
  "is_empty_grid g \<longleftrightarrow>
     (case tiles g of None \<Rightarrow> True | Some ts \<Rightarrow> list_all (\<lambda>s. s = None) ts)"

definition first_occupied :: "'a option list \<Rightarrow> 'a option" where
  "first_occupied ts = (case filter (\<lambda>s. s \<noteq> None) ts of [] \<Rightarrow> None | s # _ \<Rightarrow> s)"

definition last_occupied :: "'a option list \<Rightarrow> 'a option" where
  "last_occupied ts = first_occupied (rev ts)"

text \<open>
  \<^verbatim>\<open>BathyGrid.no_grid\<close>.  Only the first occupied slot is looked at.  For a nested
  grid the loop over its sub-slots leaves \<^verbatim>\<open>tile\<close> bound to the last occupied sub-tile
  (or to the nested grid itself when it has none).  When no slot is occupied the Python
  property falls off its loop and returns \<^verbatim>\<open>None\<close>, which every caller reads as false.
\<close>

definition no_grid :: "('tile, 'r) tile_ops \<Rightarrow> 'tile grid \<Rightarrow> error + bool" where
  "no_grid ops g =
     (case tiles g of
        None \<Rightarrow> Inr True
      | Some ts \<Rightarrow>
          (case first_occupied ts of
             None \<Rightarrow> Inr False
           | Some tile \<Rightarrow>
               sum_bind
                 (case tile_subtiles ops tile of
                    None \<Rightarrow> tile_cells ops tile
                  | Some None \<Rightarrow> Inl AttributeError
                  | Some (Some subs) \<Rightarrow>
                      (case last_occupied subs of
                         None \<Rightarrow> tile_cells ops tile
                       | Some c \<Rightarrow> c))
                 (\<lambda>cells. Inr (cells = []))))"

text \<open>\<^verbatim>\<open>BathyGrid._update_mean_depth\<close>.\<close>

definition update_mean_depth :: "'tile grid \<Rightarrow> error option \<times> 'tile grid" where
  "update_mean_depth g =
     (case data g of
        None \<Rightarrow> (None, g\<lparr>mean_depth := None\<rparr>)
      | Some d \<Rightarrow>
          (case column d ''z'' of
             Inl e \<Rightarrow> (Some e, g)
           | Inr zs \<Rightarrow>
               if \<not> np_any zs then (None, g\<lparr>mean_depth := None\<rparr>)
               else (None, g\<lparr>mean_depth := Some (np_mean zs)\<rparr>)))"

text \<open>\<^verbatim>\<open>SRGrid._convert_dataset\<close>.\<close>

definition convert_dataset :: "dataset \<Rightarrow> dataset" where
  "convert_dataset d =
     (let allowed_vars = [''x'', ''y'', ''z'', ''tvu'', ''thu''] in
      d\<lparr>array_type := NdArray,
        columns := concat (map (\<lambda>varname. case map_of (columns d) varname of
                                              None \<Rightarrow> [] | Some vs \<Rightarrow> [(varname, vs)])
                               allowed_vars)\<rparr>)"

definition rev_layer_lookup :: "(string \<times> string) list" where
  "rev_layer_lookup =
     [(''z'', ''depth''), (''tvu'', ''vertical_uncertainty''), (''thu'', ''horizontal_uncertainty'')]"

definition layernames_of :: "string list \<Rightarrow> string list" where
  "layernames_of vars =
     concat (map (\<lambda>var. case map_of rev_layer_lookup var of None \<Rightarrow> [] | Some l \<Rightarrow> [l])
                 (filter (\<lambda>var. var \<in> set [''z'', ''tvu'']) vars))"

text \<open>
  \<^verbatim>\<open>_validate_input_data\<close>: \<^verbatim>\<open>pass\<close> in \<^verbatim>\<open>BathyGrid\<close>, overridden in \<^verbatim>\<open>SRGrid\<close>
  (and inherited by \<^verbatim>\<open>VRGridTile\<close>).  \<^verbatim>\<open>self.data\<close> is \<open>None\<close> when the caller passed
  \<^verbatim>\<open>None\<close>.
\<close>

definition srgrid_validate_input_data :: "'tile grid \<Rightarrow> error option \<times> 'tile grid" where
  "srgrid_validate_input_data g =
     (case data g of
        None \<Rightarrow> (Some InvalidInputFault, g)
      | Some d \<Rightarrow>
          if array_type d \<in> set [NdArray, DaskArray] then
            (if names d = [] then (Some InvalidInputFault, g)
             else if ''x'' \<notin> set (names d) \<or> ''y'' \<notin> set (names d)
               then (Some InvalidInputFault, g)
             else (None, g\<lparr>layernames := layernames_of (names d)\<rparr>))
          else if array_type d = XrDataset then
            (if ''x'' \<notin> set (names d) then (Some InvalidInputFault, g)
             else if dims d > 1 then (Some InvalidInputFault, g)
             else (None, g\<lparr>layernames := layernames_of (names d),
                           data := Some (convert_dataset d)\<rparr>))
          else (Some InvalidInputFault, g))"

definition validate_input_data :: "'tile grid \<Rightarrow> error option \<times> 'tile grid" where
  "validate_input_data g =
     (case grid_class g of
        BathyGridClass \<Rightarrow> (None, g)
      | _ \<Rightarrow> srgrid_validate_input_data g)"

text \<open>
  \<^verbatim>\<open>_update_metadata\<close>: \<^verbatim>\<open>pass\<close> in \<^verbatim>\<open>BathyGrid\<close>, overridden in \<^verbatim>\<open>SRGrid\<close>.
  The registry entry is written first; the two checks and the conversion
  \<^verbatim>\<open>int(epsg)\<close> follow in the order of the source, \<^verbatim>\<open>and\<close> short-circuiting.
\<close>

definition srgrid_update_metadata ::
  "'tile grid \<Rightarrow> string \<Rightarrow> string list option \<Rightarrow> int option \<Rightarrow> string option
     \<Rightarrow> error option \<times> 'tile grid" where
  "srgrid_update_metadata g container_name file_list epsg_arg vertical_reference_arg =
     (let g1 = (if truthy_list file_list
                then g\<lparr>container := dict_setitem (container g) container_name (the file_list)\<rparr>
                else g\<lparr>container := dict_setitem (container g) container_name [''Unknown'']\<rparr>)
      in
      case (if truthy_int (epsg g1)
            then sum_bind (py_int epsg_arg) (\<lambda>v. Inr (epsg g1 \<noteq> Some v))
            else Inr False) of
        Inl e \<Rightarrow> (Some e, g1)
      | Inr True \<Rightarrow> (Some MetadataConflictFault, g1)
      | Inr False \<Rightarrow>
          if truthy_str (vertical_reference g1) \<and> vertical_reference g1 \<noteq> vertical_reference_arg
          then (Some MetadataConflictFault, g1)
          else (case py_int epsg_arg of
                  Inl e \<Rightarrow> (Some e, g1)
                | Inr v \<Rightarrow> (None, g1\<lparr>epsg := Some v,
                                      vertical_reference := vertical_reference_arg\<rparr>)))"

definition update_metadata ::
  "'tile grid \<Rightarrow> string \<Rightarrow> string list option \<Rightarrow> int option \<Rightarrow> string option
     \<Rightarrow> error option \<times> 'tile grid" where
  "update_metadata g container_name file_list epsg_arg vertical_reference_arg =
     (case grid_class g of
        BathyGridClass \<Rightarrow> (None, g)
      | _ \<Rightarrow> srgrid_update_metadata g container_name file_list epsg_arg vertical_reference_arg)"

section \<open>Adding and removing points\<close>

text \<open>
  The four reductions of \<^verbatim>\<open>_update_base_grid\<close>, in the order the arguments are
  evaluated: \<^verbatim>\<open>data['y'].min(), data['x'].min(), data['y'].max(), data['x'].max()\<close>.
\<close>

definition data_bounds :: "dataset \<Rightarrow> error + (real \<times> real \<times> real \<times> real)" where
  "data_bounds d =
     sum_bind (column d ''y'') (\<lambda>ys. sum_bind (np_min ys) (\<lambda>ymin.
     sum_bind (column d ''x'') (\<lambda>xs. sum_bind (np_min xs) (\<lambda>xmin.
     sum_bind (np_max ys) (\<lambda>ymax.
     sum_bind (np_max xs) (\<lambda>xmax. Inr (ymin, xmin, ymax, xmax)))))))"

text \<open>\<^verbatim>\<open>BathyGrid._update_base_grid\<close>.\<close>

definition update_base_grid :: "base_grid \<Rightarrow> 'tile grid \<Rightarrow> error option \<times> 'tile grid" where
  "update_base_grid B g =
     (case data g of
        None \<Rightarrow> (None, g)
      | Some d \<Rightarrow>
          if is_empty_grid g then
            (if can_grow g then
               (case data_bounds d of
                  Inl e \<Rightarrow> (Some e, g)
                | Inr (ymin, xmin, ymax, xmax) \<Rightarrow>
                    (None, g\<lparr>lat := init_from_extents B ymin xmin ymax xmax (lat g)\<rparr>))
             else
               (None, g\<lparr>lat := init_from_extents B (min_y (lat g)) (min_x (lat g))
                                   (max_y (lat g)) (max_x (lat g)) (lat g)\<rparr>))
          else if can_grow g then
            (case data_bounds d of
               Inl e \<Rightarrow> (Some e, g)
             | Inr (ymin, xmin, ymax, xmax) \<Rightarrow>
                 (None, g\<lparr>lat := update_extents B ymin xmin ymax xmax (lat g)\<rparr>))
          else (None, g))"

text \<open>
  The loop of \<^verbatim>\<open>BathyGrid._add_points_to_tiles\<close> over \<^verbatim>\<open>unique_locs\<close>, on the
  flattened lattice.  A new tile is stored in its slot before points are added to it, so it
  stays there when the tile's \<^verbatim>\<open>add_points\<close> raises.
\<close>

fun place_points ::
  "('tile, 'r) tile_ops \<Rightarrow> lattice \<Rightarrow> real \<Rightarrow> dataset \<Rightarrow> nat list \<Rightarrow> string \<Rightarrow> nat list
     \<Rightarrow> 'tile option list \<Rightarrow> error option \<times> 'tile option list" where
  "place_points ops l sub d binnum container_name [] flat_tiles = (None, flat_tiles)"
| "place_points ops l sub d binnum container_name (ul # uls) flat_tiles =
     (let point_mask = map (\<lambda>b. b = ul) binnum;
          pts = select_rows point_mask d
      in
      if ul \<ge> length flat_tiles then (Some IndexError, flat_tiles)
      else if flat_tiles ! ul = None \<and> ul \<ge> length (tile_origins l)
        then (Some IndexError, flat_tiles)
      else
        (let tile = (case flat_tiles ! ul of
                       None \<Rightarrow> build_tile ops l sub (fst (tile_origins l ! ul))
                                                   (snd (tile_origins l ! ul))
                     | Some t \<Rightarrow> t)
         in
         case tile_add_points ops tile pts container_name of
           (Some e, tile') \<Rightarrow> (Some e, flat_tiles[ul := Some tile'])
         | (None, tile') \<Rightarrow>
             if tile_is_empty ops tile'
             then place_points ops l sub d binnum container_name uls (flat_tiles[ul := None])
             else place_points ops l sub d binnum container_name uls
                    (flat_tiles[ul := Some tile'])))"

text \<open>\<^verbatim>\<open>BathyGrid._add_points_to_tiles\<close>.\<close>

definition add_points_to_tiles ::
  "base_grid \<Rightarrow> ('tile, 'r) tile_ops \<Rightarrow> 'tile grid \<Rightarrow> string \<Rightarrow> error option \<times> 'tile grid" where
  "add_points_to_tiles B ops g container_name =
     (case data g of
        None \<Rightarrow> (None, g)
      | Some d \<Rightarrow>
          (case sum_bind (column d ''x'') (\<lambda>xs. sum_bind (column d ''y'') (\<lambda>ys.
                  Inr (bin2d_with_indices B xs ys (lat g)))) of
             Inl e \<Rightarrow> (Some e, g)
           | Inr binnum \<Rightarrow>
               (case tiles g of
                  None \<Rightarrow> (Some AttributeError, g)
                | Some flat_tiles \<Rightarrow>
                    (case place_points ops (lat g) (subtile_size g) d binnum container_name
                            (np_sort_unique binnum) flat_tiles of
                       (e, flat_tiles') \<Rightarrow> (e, g\<lparr>tiles := Some flat_tiles'\<rparr>)))))"

text \<open>\<^verbatim>\<open>BathyGrid._update_tiles\<close>.\<close>

definition update_tiles ::
  "base_grid \<Rightarrow> ('tile, 'r) tile_ops \<Rightarrow> 'tile grid \<Rightarrow> string \<Rightarrow> error option \<times> 'tile grid" where
  "update_tiles B ops g container_name =
     (case data g of
        None \<Rightarrow> (None, g)
      | Some d \<Rightarrow>
          (let shape = length (tile_origins (lat g)) in
           case (if is_empty_grid g then Inr (g\<lparr>tiles := Some (replicate shape None)\<rparr>)
                 else if can_grow g then
                   (case tiles g of
                      None \<Rightarrow> Inl AttributeError
                    | Some old \<Rightarrow>
                        sum_bind (masked_assign (replicate shape None)
                                    (existing_tile_mask (lat g)) old)
                                 (\<lambda>new_tiles. Inr (g\<lparr>tiles := Some new_tiles\<rparr>)))
                 else Inr g) of
             Inl e \<Rightarrow> (Some e, g)
           | Inr g' \<Rightarrow> add_points_to_tiles B ops g' container_name))"

text \<open>
  \<^verbatim>\<open>BathyGrid.add_points\<close>.  The result is the exception raised, if any, and the grid as
  the call leaves it.
\<close>

definition add_points ::
  "base_grid \<Rightarrow> ('tile, 'r) tile_ops \<Rightarrow> 'tile grid \<Rightarrow> dataset option \<Rightarrow> string
     \<Rightarrow> string list option \<Rightarrow> int option \<Rightarrow> string option \<Rightarrow> error option \<times> 'tile grid" where
  "add_points B ops g data_arg container_name file_list crs vertical_reference_arg =
     then_do (validate_input_data (g\<lparr>data := map_option compute data_arg\<rparr>)) (\<lambda>g1.
     then_do (update_metadata g1 container_name file_list crs vertical_reference_arg) (\<lambda>g2.
     then_do (update_base_grid B g2) (\<lambda>g3.
     then_do (update_tiles B ops g3 container_name) (\<lambda>g4.
     then_do (update_mean_depth g4) (\<lambda>g5.
     (None, g5\<lparr>data := None\<rparr>))))))"

text \<open>
  \<^verbatim>\<open>BathyGrid.remove_points\<close>.  The loop visits every slot of the flattened lattice;
  an occupied slot has the removal forwarded and is set to \<open>None\<close> when its tile reports
  empty afterwards.
\<close>

definition remove_from_slot ::
  "('tile, 'r) tile_ops \<Rightarrow> string \<Rightarrow> 'tile option \<Rightarrow> 'tile option" where
  "remove_from_slot ops container_name slot =
     (case slot of
        None \<Rightarrow> None
      | Some tile \<Rightarrow>
          (let tile' = tile_remove_points ops tile container_name in
           if tile_is_empty ops tile' then None else Some tile'))"

definition remove_points :: "('tile, 'r) tile_ops \<Rightarrow> 'tile grid \<Rightarrow> string \<Rightarrow> 'tile grid" where
  "remove_points ops g container_name =
     (if dict_contains (container g) container_name then
        (let g1 = g\<lparr>container := dict_pop (container g) container_name\<rparr>;
             g2 = (if \<not> is_empty_grid g1
                   then g1\<lparr>tiles := map_option (map (remove_from_slot ops container_name))
                                                 (tiles g1)\<rparr>
                   else g1)
         in if is_empty_grid g2 then g2\<lparr>tiles := None\<rparr> else g2)
      else g)"

section \<open>Gridding\<close>

text \<open>
  The loop of \<^verbatim>\<open>BathyGrid._grid_regular\<close> over \<^verbatim>\<open>self.tiles.flat\<close>.  The local
  variable \<^verbatim>\<open>resolution\<close> is assigned what each tile's \<^verbatim>\<open>grid\<close> returns and is the
  argument of the next call.  Besides the slots and the list \<^verbatim>\<open>self.resolutions\<close> the
  model returns the arguments \<^verbatim>\<open>(algorithm, resolution, clear_existing)\<close> of every call
  of a tile's \<^verbatim>\<open>grid\<close>, in the order of the calls.
\<close>

type_synonym grid_call = "string \<times> real \<times> bool"

fun grid_regular_loop ::
  "('tile, 'r) tile_ops \<Rightarrow> string \<Rightarrow> bool \<Rightarrow> 'tile option list \<Rightarrow> real \<Rightarrow> real list
     \<Rightarrow> error option \<times> 'tile option list \<times> real list \<times> grid_call list" where
  "grid_regular_loop ops algorithm clear_existing [] resolution rs = (None, [], rs, [])"
| "grid_regular_loop ops algorithm clear_existing (None # ts) resolution rs =
     (case grid_regular_loop ops algorithm clear_existing ts resolution rs of
        (e, ts', rs', calls) \<Rightarrow> (e, None # ts', rs', calls))"
| "grid_regular_loop ops algorithm clear_existing (Some tile # ts) resolution rs =
     (case tile_grid ops tile algorithm resolution clear_existing of
        (Inl e, tile') \<Rightarrow>
          (Some e, Some tile' # ts, rs, [(algorithm, resolution, clear_existing)])
      | (Inr resolution', tile') \<Rightarrow>
          (case grid_regular_loop ops algorithm clear_existing ts resolution'
                  (if resolution' \<in> set rs then rs else rs @ [resolution']) of
             (e, ts', rs', calls) \<Rightarrow>
               (e, Some tile' # ts', rs', (algorithm, resolution, clear_existing) # calls)))"

text \<open>\<^verbatim>\<open>BathyGrid._grid_regular\<close>: the state it leaves.\<close>

definition grid_regular ::
  "('tile, 'r) tile_ops \<Rightarrow> 'tile grid \<Rightarrow> string \<Rightarrow> real \<Rightarrow> bool \<Rightarrow> error option \<times> 'tile grid" where
  "grid_regular ops g algorithm resolution clear_existing =
     (case tiles g of
        None \<Rightarrow> (Some AttributeError, g\<lparr>resolutions := []\<rparr>)
      | Some ts \<Rightarrow>
          (case grid_regular_loop ops algorithm clear_existing ts resolution [] of
             (None, ts', rs, calls) \<Rightarrow>
               (None, g\<lparr>tiles := Some ts', resolutions := np_sort_unique rs\<rparr>)
           | (Some e, ts', rs, calls) \<Rightarrow>
               (Some e, g\<lparr>tiles := Some ts', resolutions := rs\<rparr>)))"

text \<open>\<^verbatim>\<open>BathyGrid._grid_regular\<close>: the calls of \<^verbatim>\<open>tile.grid\<close> it makes.\<close>

definition grid_regular_calls ::
  "('tile, 'r) tile_ops \<Rightarrow> 'tile grid \<Rightarrow> string \<Rightarrow> real \<Rightarrow> bool \<Rightarrow> grid_call list" where
  "grid_regular_calls ops g algorithm resolution clear_existing =
     (case tiles g of
        None \<Rightarrow> []
      | Some ts \<Rightarrow>
          (case grid_regular_loop ops algorithm clear_existing ts resolution [] of
             (e, ts', rs, calls) \<Rightarrow> calls))"

text \<open>
  \<^verbatim>\<open>BathyGrid._grid_parallel\<close>.  A job is the list
  \<^verbatim>\<open>[tile, algorithm, resolution, clear_existing]\<close>.  The calls to the execution service
  and to \<^verbatim>\<open>print\<close> are recorded in order; the futures of one \<^verbatim>\<open>client.map\<close> call are
  identified with the jobs they were made from.
\<close>

type_synonym 'tile job = "'tile \<times> string \<times> real \<times> bool"

datatype 'tile service_call =
    Print nat nat
  | Scatter "'tile job list"
  | MapCall "'tile job list"
  | Progress "'tile job list list"
  | Wait "'tile job list list"
  | Gather "'tile job list list"

record 'tile dispatch =
  data_for_workers :: "'tile job list"
  futs :: "'tile job list list"
  chunk_index :: nat
  cur_run :: nat
  trace :: "'tile service_call list"

fun dispatch_loop ::
  "nat \<Rightarrow> nat \<Rightarrow> string \<Rightarrow> real \<Rightarrow> bool \<Rightarrow> 'tile option list \<Rightarrow> 'tile dispatch
     \<Rightarrow> 'tile dispatch" where
  "dispatch_loop chunks_at_a_time total_runs algorithm resolution clear_existing [] st = st"
| "dispatch_loop chunks_at_a_time total_runs algorithm resolution clear_existing (None # ts) st =
     dispatch_loop chunks_at_a_time total_runs algorithm resolution clear_existing ts st"
| "dispatch_loop chunks_at_a_time total_runs algorithm resolution clear_existing (Some tile # ts) st =
     (let batch = data_for_workers st @ [(tile, algorithm, resolution, clear_existing)] in
      if chunk_index st + 1 = chunks_at_a_time then
        dispatch_loop chunks_at_a_time total_runs algorithm resolution clear_existing ts
          (st\<lparr>data_for_workers := [],
              futs := futs st @ [batch],
              chunk_index := 0,
              cur_run := cur_run st + 1,
              trace := trace st @ [Print (cur_run st) total_runs, Scatter batch, MapCall batch,
                                   Progress (futs st @ [batch])]\<rparr>)
      else
        dispatch_loop chunks_at_a_time total_runs algorithm resolution clear_existing ts
          (st\<lparr>data_for_workers := batch, chunk_index := chunk_index st + 1\<rparr>))"

text \<open>
  Lines 404 to 430 of \<^verbatim>\<open>_grid_parallel\<close>: the loop, the submission of what is left in
  \<^verbatim>\<open>data_for_workers\<close>, then \<^verbatim>\<open>wait\<close> and \<^verbatim>\<open>gather\<close>.
\<close>

definition dispatch ::
  "nat \<Rightarrow> string \<Rightarrow> real \<Rightarrow> bool \<Rightarrow> 'tile option list \<Rightarrow> 'tile dispatch" where
  "dispatch chunks_at_a_time algorithm resolution clear_existing ts =
     (let total_runs = (length ts + 7) div 8;
          st = dispatch_loop chunks_at_a_time total_runs algorithm resolution clear_existing ts
                 \<lparr>data_for_workers = [], futs = [], chunk_index = 0, cur_run = 1, trace = []\<rparr>;
          st' = (if data_for_workers st \<noteq> [] then
                   st\<lparr>futs := futs st @ [data_for_workers st],
                      trace := trace st @ [Print (cur_run st) total_runs,
                                           Scatter (data_for_workers st),
                                           MapCall (data_for_workers st),
                                           Progress (futs st @ [data_for_workers st])]\<rparr>
                 else st)
      in st'\<lparr>trace := trace st' @ [Wait (futs st'), Gather (futs st')]\<rparr>)"

text \<open>\<^verbatim>\<open>_gridding_parallel\<close>, run by a worker on its copy of the job.\<close>

definition gridding_parallel ::
  "('tile, 'r) tile_ops \<Rightarrow> 'tile job \<Rightarrow> error + (real \<times> 'tile)" where
  "gridding_parallel ops data_blob =
     (case data_blob of (tile, algorithm, resolution, clear_existing) \<Rightarrow>
        (case tile_grid ops tile algorithm resolution clear_existing of
           (Inl e, tile') \<Rightarrow> Inl e
         | (Inr resolution', tile') \<Rightarrow> Inr (resolution', tile')))"

fun gather_results :: "(error + 'a) list \<Rightarrow> error + 'a list" where
  "gather_results [] = Inr []"
| "gather_results (r # rs) =
     sum_bind r (\<lambda>v. sum_bind (gather_results rs) (\<lambda>vs. Inr (v # vs)))"

definition grid_parallel ::
  "base_grid \<Rightarrow> ('tile, 'r) tile_ops \<Rightarrow> 'tile grid \<Rightarrow> string \<Rightarrow> real \<Rightarrow> bool
     \<Rightarrow> error option \<times> 'tile grid" where
  "grid_parallel B ops g algorithm resolution clear_existing =
     (let g1 = (if client g = None then g\<lparr>client := Some (dask_find_or_start_client B)\<rparr> else g);
          chunks_at_a_time = (case client g1 of None \<Rightarrow> 0 | Some n \<Rightarrow> n)
      in
      case tiles g1 of
        None \<Rightarrow> (Some AttributeError, g1)
      | Some ts \<Rightarrow>
          (let g2 = g1\<lparr>resolutions := []\<rparr>;
               st = dispatch chunks_at_a_time algorithm resolution clear_existing ts
           in
           case gather_results (map (gridding_parallel ops) (concat (futs st))) of
             Inl e \<Rightarrow> (Some e, g2)
           | Inr results \<Rightarrow>
               (case masked_assign ts (map (\<lambda>s. s \<noteq> None) ts) (map (Some \<circ> snd) results) of
                  Inl e \<Rightarrow> (Some e, g2)
                | Inr ts' \<Rightarrow>
                    (None, g2\<lparr>tiles := Some ts',
                              resolutions := np_sort_unique (map fst results)\<rparr>))))"

text \<open>\<^verbatim>\<open>BathyGrid.grid\<close>: the value returned or the exception, and the grid it leaves.\<close>

definition grid ::
  "base_grid \<Rightarrow> ('tile, 'r) tile_ops \<Rightarrow> 'tile grid \<Rightarrow> string \<Rightarrow> real option \<Rightarrow> bool \<Rightarrow> bool
     \<Rightarrow> (error + real) \<times> 'tile grid" where
  "grid B ops g algorithm resolution clear_existing use_dask =
     (if is_empty_grid g then (Inl EmptyGridFault, g)
      else
        (case (case resolution of
                 None \<Rightarrow> calculate_resolution (mean_depth g)
               | Some r \<Rightarrow> Inr r) of
           Inl e \<Rightarrow> (Inl e, g)
         | Inr r \<Rightarrow>
             (case (if use_dask then grid_parallel B ops g algorithm r clear_existing
                    else grid_regular ops g algorithm r clear_existing) of
                (Some e, g') \<Rightarrow> (Inl e, g')
              | (None, g') \<Rightarrow> (Inr r, g'))))"

section \<open>Layer access\<close>

text \<open>
  The numpy array operations on rasters are parameters of the model: a raster is a value
  of an arbitrary type \<open>'r\<close>.
  \<^item> \<open>np_full_nan rows cols\<close> is \<^verbatim>\<open>np.full((rows, cols), np.nan)\<close>;
  \<^item> \<open>np_assign_block data c r n block\<close> is \<^verbatim>\<open>data[c:c + n, r:r + n] = block\<close>;
  \<^item> \<open>np_trim data\<close> is lines 352 to 361 of \<^verbatim>\<open>get_layer_trimmed\<close>: the crop to the
    bounding box of the cells that are not NaN, with \<^verbatim>\<open>[rmin, cmin]\<close> and
    \<^verbatim>\<open>[rmax, cmax]\<close>;
  \<^item> \<open>np_notnan surf\<close> is \<^verbatim>\<open>~np.isnan(surf)\<close>.
\<close>

record 'r numpy =
  np_full_nan :: "int \<Rightarrow> int \<Rightarrow> 'r"
  np_assign_block :: "'r \<Rightarrow> int \<Rightarrow> int \<Rightarrow> int \<Rightarrow> 'r \<Rightarrow> error + 'r"
  np_trim :: "'r \<Rightarrow> error + ('r \<times> (int \<times> int) \<times> (int \<times> int))"
  np_notnan :: "'r \<Rightarrow> 'r"

definition is_integer :: "real \<Rightarrow> bool" where
  "is_integer v \<longleftrightarrow> v = of_int \<lfloor>v\<rfloor>"

definition np_arange :: "real \<Rightarrow> real \<Rightarrow> real \<Rightarrow> real list" where
  "np_arange start stop step =
     map (\<lambda>i. start + real i * step) [0 ..< nat \<lceil>(stop - start) / step\<rceil>]"

definition py_slice :: "'a list \<Rightarrow> int \<Rightarrow> int \<Rightarrow> 'a list" where
  "py_slice xs a b =
     (let n = int (length xs);
          a' = (if a < 0 then max 0 (n + a) else min a n);
          b' = (if b < 0 then max 0 (n + b) else min b n)
      in take (nat (b' - a')) (drop (nat a') xs))"

text \<open>\<^verbatim>\<open>BathyGrid._build_layer_grid\<close>.\<close>

definition build_layer_grid :: "'r numpy \<Rightarrow> lattice \<Rightarrow> real \<Rightarrow> error + 'r" where
  "build_layer_grid N l resolution =
     (if resolution = 0 then Inl ZeroDivisionError
      else
        (let y_size = height l / resolution;
             x_size = width l / resolution
         in if \<not> is_integer y_size then Inl ShapeFault
            else if \<not> is_integer x_size then Inl ShapeFault
            else Inr (np_full_nan N \<lfloor>y_size\<rfloor> \<lfloor>x_size\<rfloor>)))"

text \<open>
  The test that opens \<^verbatim>\<open>get_layer_by_name\<close>, \<^verbatim>\<open>plot\<close> and \<^verbatim>\<open>return_surf_xyz\<close>
  alike, after the \<^verbatim>\<open>no_grid\<close> test:
  \<^verbatim>\<open>if not resolution: if len(self.resolutions) > 1: raise ...; resolution = self.resolutions[0]\<close>.
\<close>

definition resolve_resolution :: "'tile grid \<Rightarrow> real option \<Rightarrow> error + real" where
  "resolve_resolution g resolution =
     (if \<not> truthy_float resolution then
        (if length (resolutions g) > 1 then Inl AmbiguousResolutionFault
         else (case resolutions g of [] \<Rightarrow> Inl IndexError | r # _ \<Rightarrow> Inr r))
      else (case resolution of None \<Rightarrow> Inl TypeError | Some r \<Rightarrow> Inr r))"

text \<open>The loop of \<^verbatim>\<open>get_layer_by_name\<close> over \<^verbatim>\<open>enumerate(self.tiles.flat)\<close>.\<close>

fun fill_layer ::
  "'r numpy \<Rightarrow> base_grid \<Rightarrow> ('tile, 'r) tile_ops \<Rightarrow> lattice \<Rightarrow> string \<Rightarrow> real
     \<Rightarrow> (nat \<times> 'tile option) list \<Rightarrow> 'r \<Rightarrow> error + 'r" where
  "fill_layer N B ops l layer resolution [] arr = Inr arr"
| "fill_layer N B ops l layer resolution ((cnt, None) # rest) arr =
     fill_layer N B ops l layer resolution rest arr"
| "fill_layer N B ops l layer resolution ((cnt, Some tile) # rest) arr =
     (case tile_idx_to_row_col B l cnt of (col, row) \<Rightarrow>
        (let tile_cell_count = tile_size l / resolution in
         if \<not> is_integer tile_cell_count then Inl ShapeFault
         else
           sum_bind (tile_get_layer_by_name ops tile layer resolution) (\<lambda>block.
           sum_bind (np_assign_block N arr (col * \<lfloor>tile_cell_count\<rfloor>)
                       (row * \<lfloor>tile_cell_count\<rfloor>) \<lfloor>tile_cell_count\<rfloor> block) (\<lambda>arr'.
           fill_layer N B ops l layer resolution rest arr'))))"

text \<open>\<^verbatim>\<open>BathyGrid.get_layer_by_name\<close>.\<close>

definition get_layer_by_name ::
  "'r numpy \<Rightarrow> base_grid \<Rightarrow> ('tile, 'r) tile_ops \<Rightarrow> 'tile grid \<Rightarrow> string \<Rightarrow> real option
     \<Rightarrow> error + 'r" where
  "get_layer_by_name N B ops g layer resolution =
     sum_bind (no_grid ops g) (\<lambda>ng.
       if ng then Inl EmptyGridFault
       else
         sum_bind (resolve_resolution g resolution) (\<lambda>res.
         sum_bind (build_layer_grid N (lat g) res) (\<lambda>arr.
           case tiles g of
             None \<Rightarrow> Inl AttributeError
           | Some ts \<Rightarrow> fill_layer N B ops (lat g) layer res (enumerate 0 ts) arr)))"

text \<open>\<^verbatim>\<open>BathyGrid.get_layer_trimmed\<close>.\<close>

definition get_layer_trimmed ::
  "'r numpy \<Rightarrow> base_grid \<Rightarrow> ('tile, 'r) tile_ops \<Rightarrow> 'tile grid \<Rightarrow> string \<Rightarrow> real option
     \<Rightarrow> error + ('r \<times> (int \<times> int) \<times> (int \<times> int))" where
  "get_layer_trimmed N B ops g layer resolution =
     sum_bind (get_layer_by_name N B ops g layer resolution) (np_trim N)"

text \<open>
  \<^verbatim>\<open>BathyGrid.return_surf_xyz\<close>.  Line 548 calls \<^verbatim>\<open>self.get_layer_trimmed(layer)\<close>:
  the resolution is not passed on, so the callee sees its default \<^verbatim>\<open>None\<close>.
\<close>

definition return_surf_xyz ::
  "'r numpy \<Rightarrow> base_grid \<Rightarrow> ('tile, 'r) tile_ops \<Rightarrow> 'tile grid \<Rightarrow> string \<Rightarrow> real option
     \<Rightarrow> bool \<Rightarrow> error + (real list \<times> real list \<times> 'r \<times> 'r \<times> (int \<times> int) \<times> (int \<times> int))" where
  "return_surf_xyz N B ops g layer resolution cell_boundaries =
     sum_bind (no_grid ops g) (\<lambda>ng.
       if ng then Inl EmptyGridFault
       else
         sum_bind (resolve_resolution g resolution) (\<lambda>res.
         sum_bind (get_layer_trimmed N B ops g layer None) (\<lambda>(surf, new_mins, new_maxs).
           (let valid_nodes = np_notnan N surf;
                l = lat g;
                x = (if \<not> cell_boundaries
                     then py_slice (map (\<lambda>v. v + res / 2) (np_arange (min_x l) (max_x l) res))
                            (fst new_mins) (fst new_maxs)
                     else py_slice (np_arange (min_x l) (max_x l) res)
                            (fst new_mins) (fst new_maxs + 1));
                y = (if \<not> cell_boundaries
                     then py_slice (map (\<lambda>v. v + res / 2) (np_arange (min_y l) (max_y l) res))
                            (snd new_mins) (snd new_maxs)
                     else py_slice (np_arange (min_y l) (max_y l) res)
                            (snd new_mins) (snd new_maxs + 1))
            in Inr (x, y, surf, valid_nodes, new_mins, new_maxs)))))"

text \<open>
  \<^verbatim>\<open>BathyGrid.return_layer_names\<close>.  \<^verbatim>\<open>tile.cells.keys\<close> is the bound method of the
  dict, not a call of it; \<^verbatim>\<open>list\<close> of a method raises TypeError.
\<close>

definition return_layer_names ::
  "('tile, 'r) tile_ops \<Rightarrow> 'tile grid \<Rightarrow> error + string list" where
  "return_layer_names ops g =
     sum_bind (no_grid ops g) (\<lambda>ng.
       if ng then Inr []
       else
         (case tiles g of
            None \<Rightarrow> Inl AttributeError
          | Some ts \<Rightarrow>
              (case first_occupied ts of
                 None \<Rightarrow> Inr []
               | Some tile \<Rightarrow> sum_bind (tile_cells ops tile) (\<lambda>cells. Inl TypeError))))"

section \<open>The tiles of the three grid classes\<close>

text \<open>
  Modelled from the spec: the leaf tile \<^verbatim>\<open>SRTile\<close> (module \<^verbatim>\<open>bathygrid.tile\<close>) is absent
  from the sources.  By the specification it owns the raw points of each container,
  \<^verbatim>\<open>add_points\<close> replaces the points stored under the container's name,
  \<^verbatim>\<open>remove_points\<close> drops them, \<^verbatim>\<open>is_empty\<close> holds when the tile has no points, and
  \<^verbatim>\<open>cells\<close> is a mapping keyed by layer name.  What its \<^verbatim>\<open>grid\<close> and
  \<^verbatim>\<open>get_layer_by_name\<close> compute is left open: they are parameters.
\<close>

record 'r srtile =
  origin_x :: real
  origin_y :: real
  size_of_tile :: real
  tile_points :: "(string \<times> dataset) list"
  cells :: "(string \<times> 'r) list"

definition n_rows :: "dataset \<Rightarrow> nat" where
  "n_rows d = (case columns d of [] \<Rightarrow> 0 | (n, vs) # _ \<Rightarrow> length vs)"

definition srtile_ops ::
  "('r srtile \<Rightarrow> string \<Rightarrow> real \<Rightarrow> bool \<Rightarrow> (error + real) \<times> 'r srtile)
     \<Rightarrow> ('r srtile \<Rightarrow> string \<Rightarrow> real \<Rightarrow> error + 'r) \<Rightarrow> ('r srtile, 'r) tile_ops" where
  "srtile_ops srtile_grid srtile_get_layer =
     \<lparr>build_tile = (\<lambda>l sub x y.
          \<lparr>origin_x = x, origin_y = y, size_of_tile = tile_size l, tile_points = [], cells = []\<rparr>),
      tile_add_points = (\<lambda>t pts container_name.
          (None, t\<lparr>tile_points := dict_setitem (tile_points t) container_name pts\<rparr>)),
      tile_remove_points = (\<lambda>t container_name.
          t\<lparr>tile_points := dict_pop (tile_points t) container_name\<rparr>),
      tile_is_empty = (\<lambda>t. list_all (\<lambda>(n, pts). n_rows pts = 0) (tile_points t)),
      tile_grid = srtile_grid,
      tile_cells = (\<lambda>t. Inr (map fst (cells t))),
      tile_subtiles = (\<lambda>t. None),
      tile_get_layer_by_name = srtile_get_layer\<rparr>"

text \<open>
  The tiles of a \<^verbatim>\<open>VRGridTile\<close> are \<^verbatim>\<open>BathyGrid\<close> instances
  (\<^verbatim>\<open>VRGridTile._build_tile\<close>), whose own tiles are \<^verbatim>\<open>SRTile\<close>s
  (\<^verbatim>\<open>BathyGrid._build_tile\<close>).  Their methods are the ones above; a
  \<^verbatim>\<open>BathyGrid\<close> has no attribute \<^verbatim>\<open>cells\<close>.  What the absent
  \<^verbatim>\<open>BaseGrid.__init__\<close> assigns is modelled from the spec: a grid is created empty, with no
  lattice and an empty registry, and a nested grid cannot grow.
\<close>

definition new_bathygrid :: "real \<Rightarrow> real \<Rightarrow> real \<Rightarrow> real \<Rightarrow> real \<Rightarrow> 'tile grid" where
  "new_bathygrid x0 y0 x1 y1 tsize =
     \<lparr>grid_class = BathyGridClass,
      lat = \<lparr>min_x = x0, min_y = y0, max_x = x1, max_y = y1, tile_size = tsize,
             height = 0, width = 0, tile_origins = [], existing_tile_mask = []\<rparr>,
      can_grow = False, subtile_size = 0, data = None, container = [], tiles = None,
      mean_depth = None, epsg = None, vertical_reference = None, resolutions = [],
      layernames = [], client = None\<rparr>"

definition bathygrid_ops ::
  "'r numpy \<Rightarrow> base_grid \<Rightarrow> ('tile, 'r) tile_ops \<Rightarrow> ('tile grid, 'r) tile_ops" where
  "bathygrid_ops N B sub_ops =
     \<lparr>build_tile = (\<lambda>l sub x y. new_bathygrid x y (x + tile_size l) (y + tile_size l) sub),
      tile_add_points = (\<lambda>t pts container_name.
          add_points B sub_ops t (Some pts) container_name None None None),
      tile_remove_points = (\<lambda>t container_name. remove_points sub_ops t container_name),
      tile_is_empty = is_empty_grid,
      tile_grid = (\<lambda>t algorithm resolution clear_existing.
          grid B sub_ops t algorithm (Some resolution) clear_existing False),
      tile_cells = (\<lambda>t. Inl AttributeError),
      tile_subtiles = (\<lambda>t. Some (map_option (map (map_option (tile_cells sub_ops))) (tiles t))),
      tile_get_layer_by_name = (\<lambda>t layer resolution.
          get_layer_by_name N B sub_ops t layer (Some resolution))\<rparr>"

text \<open>
  \<^verbatim>\<open>SRGrid.__init__\<close> and \<^verbatim>\<open>VRGridTile.__init__\<close>: an empty grid that can grow.
\<close>

definition new_srgrid :: "real \<Rightarrow> real \<Rightarrow> real \<Rightarrow> 'tile grid" where
  "new_srgrid x0 y0 tsize =
     (new_bathygrid x0 y0 0 0 tsize)\<lparr>grid_class := SRGridClass, can_grow := True\<rparr>"

definition new_vrgridtile :: "real \<Rightarrow> real \<Rightarrow> real \<Rightarrow> real \<Rightarrow> 'tile grid" where
  "new_vrgridtile x0 y0 tsize sub =
     (new_bathygrid x0 y0 0 0 tsize)\<lparr>grid_class := VRGridTileClass, can_grow := True,
                                      subtile_size := sub\<rparr>"

section \<open>Batching in the words of the specification\<close>


definition jobs_of :: "string \<Rightarrow> real \<Rightarrow> bool \<Rightarrow> 'tile option list \<Rightarrow> 'tile job list" where
  "jobs_of algorithm resolution clear_existing ts =
     concat (map (\<lambda>s. case s of None \<Rightarrow> []
                          | Some tile \<Rightarrow> [(tile, algorithm, resolution, clear_existing)]) ts)"



text \<open>
  Bounded concurrency in the words of the specification: the dispatcher awaits the
  completion of each batch's futures before it forms the next batch, so at most one batch
  is in flight.  The execution service is dask's: \<^verbatim>\<open>client.map\<close> puts a batch in flight;
  \<^verbatim>\<open>wait\<close> returns when the futures passed to it have completed, and so does
  \<^verbatim>\<open>progress\<close> called from a console session (from a notebook it returns at once, and
  this reading of it does not apply).  \<open>one_batch_in_flight flying calls\<close> runs through the
  calls with the batches \<open>flying\<close> in flight: nothing may be in flight when a batch is
  scattered or mapped.
\<close>

fun one_batch_in_flight :: "'tile job list list \<Rightarrow> 'tile service_call list \<Rightarrow> bool" where
  "one_batch_in_flight flying [] = True"
| "one_batch_in_flight flying (Print k total_runs # cs) = one_batch_in_flight flying cs"
| "one_batch_in_flight flying (Scatter b # cs) = (flying = [] \<and> one_batch_in_flight flying cs)"
| "one_batch_in_flight flying (MapCall b # cs) = (flying = [] \<and> one_batch_in_flight [b] cs)"
| "one_batch_in_flight flying (Progress fs # cs) =
     one_batch_in_flight (filter (\<lambda>b. b \<notin> set fs) flying) cs"
| "one_batch_in_flight flying (Wait fs # cs) =
     one_batch_in_flight (filter (\<lambda>b. b \<notin> set fs) flying) cs"
| "one_batch_in_flight flying (Gather fs # cs) = one_batch_in_flight flying cs"

section \<open>Collaborators and inputs of the examples\<close>

text \<open>
  The examples below run the model on concrete inputs.  They need some instance of the
  absent collaborators: a lattice of one cell that bins every point into slot 0, rasters
  without content, and leaf tiles whose \<^verbatim>\<open>grid\<close> stores a depth layer and reports either
  the resolution it was asked for (\<open>echo_grid\<close>) or a resolution of its own
  (\<open>own_resolution_grid\<close>).
\<close>

definition one_cell_base :: base_grid where
  "one_cell_base =
     \<lparr>init_from_extents = (\<lambda>ymin xmin ymax xmax l. l\<lparr>tile_origins := [(xmin, ymin)]\<rparr>),
      update_extents = (\<lambda>ymin xmin ymax xmax l. l\<lparr>existing_tile_mask := [True]\<rparr>),
      bin2d_with_indices = (\<lambda>xs ys l. map (\<lambda>x. 0) xs),
      tile_idx_to_row_col = (\<lambda>l cnt. (0, 0)),
      dask_find_or_start_client = 2\<rparr>"

definition unit_numpy :: "unit numpy" where
  "unit_numpy =
     \<lparr>np_full_nan = (\<lambda>rows cols. ()),
      np_assign_block = (\<lambda>arr c r n block. Inr ()),
      np_trim = (\<lambda>arr. Inr ((), (0, 0), (1, 1))),
      np_notnan = (\<lambda>arr. ())\<rparr>"

definition echo_grid ::
  "unit srtile \<Rightarrow> string \<Rightarrow> real \<Rightarrow> bool \<Rightarrow> (error + real) \<times> unit srtile" where
  "echo_grid t algorithm resolution clear_existing =
     (Inr resolution, t\<lparr>cells := [(''depth'', ())]\<rparr>)"

definition own_resolution_grid ::
  "real \<Rightarrow> unit srtile \<Rightarrow> string \<Rightarrow> real \<Rightarrow> bool \<Rightarrow> (error + real) \<times> unit srtile" where
  "own_resolution_grid own t algorithm resolution clear_existing =
     (Inr own, t\<lparr>cells := [(''depth'', ())]\<rparr>)"

definition unit_layer :: "unit srtile \<Rightarrow> string \<Rightarrow> real \<Rightarrow> error + unit" where
  "unit_layer t layer resolution = Inr ()"

definition two_points :: "real \<Rightarrow> real \<Rightarrow> dataset" where
  "two_points z1 z2 =
     \<lparr>array_type = NdArray,
      columns = [(''x'', [0, 100]), (''y'', [0, 100]), (''z'', [z1, z2])],
      dims = 1\<rparr>"

definition two_points_without_depth :: dataset where
  "two_points_without_depth =
     \<lparr>array_type = NdArray, columns = [(''x'', [0, 100]), (''y'', [0, 100])], dims = 1\<rparr>"

definition leaf_tile :: "(string \<times> dataset) list \<Rightarrow> (string \<times> unit) list \<Rightarrow> unit srtile" where
  "leaf_tile pts cs =
     \<lparr>origin_x = 0, origin_y = 0, size_of_tile = 1024, tile_points = pts, cells = cs\<rparr>"

section \<open>Properties of the resolution selector\<close>

lemma calculate_resolution_first_band:
  assumes "d < 20"
  shows "calculate_resolution (Some d) = Inr 0.5 \<and> selection_rule d 0.5"
  using assms
  by (auto simp: calculate_resolution_def selection_rule_def depth_resolution_lookup_def
      np_argmax_def dict_getitem_def)

lemma calculate_resolution_band:
  assumes "lo \<le> d" "d < t" "(lo, t, r) \<in> set
     [(20, 40, 1), (40, 60, 2), (60, 80, 4), (80, 160, 8), (160, 320, 16),
      (320, 640, 32), (640, 1280, 64), (1280, 2560, 128), (2560, 5120, 256),
      (5120, 10240, 512), (10240, 20480, 1024 :: real)]"
  shows "calculate_resolution (Some d) = Inr r \<and> selection_rule d r"
  using assms
  by (auto simp: calculate_resolution_def selection_rule_def depth_resolution_lookup_def
      np_argmax_def dict_getitem_def)

lemma calculate_resolution_in_table:
  assumes "d < 20480"
  shows "\<exists>r. calculate_resolution (Some d) = Inr r \<and> selection_rule d r"
proof -
  consider "d < 20" | "20 \<le> d" "d < 40" | "40 \<le> d" "d < 60" | "60 \<le> d" "d < 80"
    | "80 \<le> d" "d < 160" | "160 \<le> d" "d < 320" | "320 \<le> d" "d < 640"
    | "640 \<le> d" "d < 1280" | "1280 \<le> d" "d < 2560" | "2560 \<le> d" "d < 5120"
    | "5120 \<le> d" "d < 10240" | "10240 \<le> d" "d < 20480"
    using assms by linarith
  then show ?thesis
  proof cases
    case 1
    then show ?thesis using calculate_resolution_first_band by blast
  next
    case 2
    then show ?thesis using calculate_resolution_band [of 20 d 40 1] by auto
  next
    case 3
    then show ?thesis using calculate_resolution_band [of 40 d 60 2] by auto
  next
    case 4
    then show ?thesis using calculate_resolution_band [of 60 d 80 4] by auto
  next
    case 5
    then show ?thesis using calculate_resolution_band [of 80 d 160 8] by auto
  next
    case 6
    then show ?thesis using calculate_resolution_band [of 160 d 320 16] by auto
  next
    case 7
    then show ?thesis using calculate_resolution_band [of 320 d 640 32] by auto
  next
    case 8
    then show ?thesis using calculate_resolution_band [of 640 d 1280 64] by auto
  next
    case 9
    then show ?thesis using calculate_resolution_band [of 1280 d 2560 128] by auto
  next
    case 10
    then show ?thesis using calculate_resolution_band [of 2560 d 5120 256] by auto
  next
    case 11
    then show ?thesis using calculate_resolution_band [of 5120 d 10240 512] by auto
  next
    case 12
    then show ?thesis using calculate_resolution_band [of 10240 d 20480 1024] by auto
  qed
qed

lemma selection_rule_none_beyond_table:
  assumes "20480 \<le> d"
  shows "\<not> selection_rule d r"
  using assms by (auto simp: selection_rule_def depth_resolution_lookup_def)

lemma calculate_resolution_all_false:
  assumes "20480 \<le> d"
  shows "calculate_resolution (Some d) = Inr 0.5"
  using assms
  by (auto simp: calculate_resolution_def depth_resolution_lookup_def
      np_argmax_def dict_getitem_def)

text \<open>
  Claim C1 (as amended).  With \<^verbatim>\<open>mean_depth\<close> undefined the selector fails with
  UndefinedDepthFault.  With a mean depth \<open>d\<close> below the largest threshold 20480 it
  returns the resolution paired with the smallest table threshold strictly greater than
  \<open>d\<close>.  (At 20480 and beyond no threshold is strictly greater, so the rule names no
  resolution there.)
\<close>

theorem calculate_resolution_selection_rule:
  "calculate_resolution None = Inl UndefinedDepthFault \<and>
   (d < 20480 \<longrightarrow> (\<exists>r. calculate_resolution (Some d) = Inr r \<and> selection_rule d r))"
  using calculate_resolution_in_table [of d] by (simp add: calculate_resolution_def)

theorem calculate_resolution_selection_rule_witness:
  "calculate_resolution None = Inl UndefinedDepthFault \<and> (25::real) < 20480 \<and>
   calculate_resolution (Some 25) = Inr 1 \<and> selection_rule 25 1"
  using calculate_resolution_selection_rule [of 25] calculate_resolution_band [of 20 25 40 1]
  by simp

text \<open>
  Claim C1 as stated fails: a mean depth of 20480 is defined, the selector returns 0.5,
  and 0.5 is not paired with a threshold strictly greater than 20480 (there is none).
\<close>

theorem calculate_resolution_selection_rule_counterexample:
  "calculate_resolution (Some 20480) = Inr 0.5 \<and> \<not> selection_rule 20480 0.5"
  using calculate_resolution_all_false [of 20480] selection_rule_none_beyond_table [of 20480 "0.5"]
  by simp

text \<open>
  Claim C7.  The claim asks for an explicit policy at and beyond the largest threshold,
  such as the coarsest resolution 1024.0.  The code has none: for every mean depth of
  20480 or more the comparison array is all false, \<^verbatim>\<open>np.argmax\<close> answers index 0 and
  the selector returns the finest resolution 0.5.
\<close>

theorem calculate_resolution_beyond_table:
  "20480 \<le> d \<Longrightarrow> calculate_resolution (Some d) = Inr 0.5"
proof -
  assume d: "20480 \<le> d"
  then have "map (\<lambda>k. k - d > 0) (map fst depth_resolution_lookup) = replicate 12 False"
    by (simp add: depth_resolution_lookup_def numeral_eq_Suc)
  then have "np_argmax (map (\<lambda>k. k - d > 0) (map fst depth_resolution_lookup)) = 0"
    by (simp add: np_argmax_def numeral_eq_Suc)
  then show ?thesis
    by (simp add: calculate_resolution_def Let_def)
       (simp add: depth_resolution_lookup_def dict_getitem_def)
qed

theorem calculate_resolution_beyond_table_witness:
  "(20480::real) \<le> 30000 \<and> calculate_resolution (Some 30000) = Inr 0.5 \<and>
   calculate_resolution (Some 30000) \<noteq> Inr 1024"
  using calculate_resolution_beyond_table [of 30000] by simp

section \<open>Properties of adding points\<close>

lemma map_of_replace_key:
  "map_of (map (\<lambda>(k', v'). if k' = k then (k', v) else (k', v')) d) k =
     (if k \<in> fst ` set d then Some v else None)"
  by (induction d) auto

lemma map_of_dict_setitem: "map_of (dict_setitem d k v) k = Some v"
proof (cases "k \<in> fst ` set d")
  case True
  then show ?thesis by (simp add: dict_setitem_def map_of_replace_key)
next
  case False
  then have "map_of d k = None" by (simp add: map_of_eq_None_iff)
  with False show ?thesis by (simp add: dict_setitem_def map_add_def)
qed

lemma then_do_cases:
  assumes "then_do r f = (e, s)"
  obtains e0 where "r = (Some e0, s)" "e = Some e0"
  | s0 where "r = (None, s0)" "f s0 = (e, s)"
  using assms by (cases r) (auto simp: then_do_def split: option.splits)

lemma validate_input_data_cases:
  assumes "validate_input_data g = (e, g')"
  shows "(e = None \<or> e = Some InvalidInputFault) \<and> container g' = container g \<and>
         epsg g' = epsg g \<and> vertical_reference g' = vertical_reference g \<and>
         grid_class g' = grid_class g"
  using assms
  by (auto simp: validate_input_data_def srgrid_validate_input_data_def
      split: grid_class.splits option.splits if_splits)

lemma validate_input_data_ndarray:
  assumes "validate_input_data g = (None, g')" "data g = Some d" "array_type d = NdArray"
  shows "data g' = Some d"
  using assms
  by (auto simp: validate_input_data_def srgrid_validate_input_data_def
      split: grid_class.splits option.splits if_splits)

lemma update_metadata_registry:
  assumes "update_metadata g n fl crs vr = (e, g')" "grid_class g \<noteq> BathyGridClass"
  shows "container g' =
           dict_setitem (container g) n (if truthy_list fl then the fl else [''Unknown''])"
  using assms
  by (auto simp: update_metadata_def srgrid_update_metadata_def Let_def sum_bind_def
      split: grid_class.splits sum.splits bool.splits if_splits)

lemma update_metadata_data:
  assumes "update_metadata g n fl crs vr = (e, g')"
  shows "data g' = data g"
  using assms
  by (auto simp: update_metadata_def srgrid_update_metadata_def Let_def sum_bind_def
      split: grid_class.splits sum.splits bool.splits if_splits)

lemma update_base_grid_keeps:
  assumes "update_base_grid B g = (e, g')"
  shows "container g' = container g \<and> data g' = data g"
  using assms
  by (auto simp: update_base_grid_def split: option.splits if_splits sum.splits prod.splits)

lemma add_points_to_tiles_keeps:
  assumes "add_points_to_tiles B ops g n = (e, g')"
  shows "container g' = container g \<and> data g' = data g"
  using assms
  by (auto simp: add_points_to_tiles_def split: option.splits if_splits sum.splits prod.splits)

lemma update_tiles_keeps:
  assumes "update_tiles B ops g n = (e, g')"
  shows "container g' = container g \<and> data g' = data g"
  using assms
  by (auto simp: update_tiles_def Let_def sum_bind_def dest!: add_points_to_tiles_keeps
      split: option.splits if_splits sum.splits prod.splits)

lemma update_mean_depth_container:
  assumes "update_mean_depth g = (e, g')"
  shows "container g' = container g"
  using assms
  by (auto simp: update_mean_depth_def split: option.splits if_splits sum.splits prod.splits)

lemma update_mean_depth_result:
  assumes "update_mean_depth g = (None, g')" "data g = Some d"
  shows "\<exists>zs. column d ''z'' = Inr zs \<and>
              mean_depth g' = (if np_any zs then Some (np_mean zs) else None)"
  using assms by (auto simp: update_mean_depth_def split: sum.splits if_splits)

lemma add_points_tail_container:
  assumes "then_do (update_base_grid B g2) (\<lambda>g3.
     then_do (update_tiles B ops g3 n) (\<lambda>g4.
     then_do (update_mean_depth g4) (\<lambda>g5.
     (None, g5\<lparr>data := None\<rparr>)))) = (e, g')"
  shows "container g' = container g2"
  using assms
  by (elim then_do_cases)
     (auto dest!: update_base_grid_keeps update_tiles_keeps update_mean_depth_container)

text \<open>The definitions unfolded to run the model on the inputs of the examples.\<close>

lemmas example_defs = add_points_def then_do_def validate_input_data_def
  srgrid_validate_input_data_def update_metadata_def srgrid_update_metadata_def
  update_base_grid_def update_tiles_def add_points_to_tiles_def update_mean_depth_def
  new_srgrid_def new_bathygrid_def new_vrgridtile_def one_cell_base_def srtile_ops_def
  two_points_def two_points_without_depth_def compute_def names_def column_def
  is_empty_grid_def data_bounds_def sum_bind_def np_min_def np_max_def np_sort_unique_def
  select_rows_def dict_setitem_def truthy_list_def truthy_int_def truthy_str_def py_int_def
  layernames_of_def rev_layer_lookup_def n_rows_def np_any_def np_mean_def masked_assign_def
  dict_pop_def dict_contains_def remove_points_def remove_from_slot_def bathygrid_ops_def

text \<open>
  Claim C8.  When \<^verbatim>\<open>add_points\<close> of an \<^verbatim>\<open>SRGrid\<close> (or a subclass) raises
  MetadataConflictFault, the grid it leaves has the registry of before with the entry of
  the new container written: the registry was updated before the fault was raised.
\<close>

theorem add_points_conflict_after_registry:
  assumes "grid_class g \<noteq> BathyGridClass"
    and "add_points B ops g data_arg container_name file_list crs vertical_reference_arg
           = (Some MetadataConflictFault, g')"
  shows "container g' = dict_setitem (container g) container_name
                          (if truthy_list file_list then the file_list else [''Unknown''])
         \<and> dict_contains (container g') container_name"
proof -
  let ?g0 = "g\<lparr>data := map_option compute data_arg\<rparr>"
  let ?entry = "if truthy_list file_list then the file_list else [''Unknown'']"
  from assms(2) have c: "container g' = dict_setitem (container g) container_name ?entry"
    unfolding add_points_def
  proof (cases rule: then_do_cases)
    case (1 e0)
    then show ?thesis using validate_input_data_cases [of ?g0 "Some e0" g'] by auto
  next
    case (2 g1)
    from 2(1) have g1: "container g1 = container g" "grid_class g1 = grid_class g"
      using validate_input_data_cases [of ?g0 None g1] by auto
    from 2(2) show ?thesis
    proof (cases rule: then_do_cases)
      case (1 e0)
      then show ?thesis
        using update_metadata_registry [of g1 container_name file_list crs
            vertical_reference_arg "Some e0" g'] g1 assms(1)
        by simp
    next
      case (2 g2)
      from 2(1) have "container g2 = dict_setitem (container g) container_name ?entry"
        using update_metadata_registry [of g1 container_name file_list crs
            vertical_reference_arg None g2] g1 assms(1)
        by simp
      with add_points_tail_container [OF 2(2)] show ?thesis by simp
    qed
  qed
  have "map_of (container g') container_name \<noteq> None"
    by (simp add: c map_of_dict_setitem)
  then have "dict_contains (container g') container_name"
    by (simp add: dict_contains_def map_of_eq_None_iff)
  with c show ?thesis by simp
qed

text \<open>
  Witness for C8: container A is added with EPSG 4326, then container B with EPSG 32610.
  The second call raises MetadataConflictFault and the registry holds both A and B.
\<close>

theorem add_points_conflict_after_registry_witness:
  "(let ops = srtile_ops echo_grid unit_layer;
        g1 = snd (add_points one_cell_base ops (new_srgrid 0 0 1024) (Some (two_points 20 30))
                    ''A'' None (Some 4326) (Some ''MLLW''));
        r = add_points one_cell_base ops g1 (Some (two_points 20 30))
                    ''B'' None (Some 32610) (Some ''MLLW'')
    in grid_class g1 \<noteq> BathyGridClass \<and> container g1 = [(''A'', [''Unknown''])]
       \<and> r = (Some MetadataConflictFault, snd r)
       \<and> container (snd r) = [(''A'', [''Unknown'']), (''B'', [''Unknown''])]
       \<and> dict_contains (container (snd r)) ''B'')"
  using add_points_conflict_after_registry
    [of "snd (add_points one_cell_base (srtile_ops echo_grid unit_layer) (new_srgrid 0 0 1024)
               (Some (two_points 20 30)) ''A'' None (Some 4326) (Some ''MLLW''))"
        one_cell_base "srtile_ops echo_grid unit_layer" "Some (two_points 20 30)" "''B''" None
        "Some 32610" "Some ''MLLW''"]
  by (simp add: example_defs)

text \<open>
  Claim C10.  On an \<^verbatim>\<open>SRGrid\<close> (or a subclass), \<^verbatim>\<open>add_points\<close> with \<^verbatim>\<open>crs\<close> omitted
  or \<open>None\<close> raises TypeError, from \<^verbatim>\<open>int(None)\<close> in the metadata update, whenever
  the input passes validation and the vertical reference does not conflict: on the first
  add as on later ones.
\<close>

theorem add_points_crs_none_type_error:
  assumes "grid_class g \<noteq> BathyGridClass"
    and "fst (validate_input_data (g\<lparr>data := map_option compute data_arg\<rparr>)) = None"
    and "\<not> truthy_str (vertical_reference g) \<or> vertical_reference g = vertical_reference_arg"
  shows "fst (add_points B ops g data_arg container_name file_list None vertical_reference_arg)
           = Some TypeError"
proof -
  let ?g0 = "g\<lparr>data := map_option compute data_arg\<rparr>"
  obtain g1 where v: "validate_input_data ?g0 = (None, g1)"
    using assms(2) by (cases "validate_input_data ?g0") auto
  then have g1: "grid_class g1 = grid_class g" "vertical_reference g1 = vertical_reference g"
    using validate_input_data_cases [of ?g0 None g1] by auto
  have "fst (update_metadata g1 container_name file_list None vertical_reference_arg)
          = Some TypeError"
    using assms(1,3) g1
    by (auto simp: update_metadata_def srgrid_update_metadata_def Let_def sum_bind_def py_int_def
        split: grid_class.splits sum.splits bool.splits if_splits)
  then obtain g2 where
    "update_metadata g1 container_name file_list None vertical_reference_arg = (Some TypeError, g2)"
    by (cases "update_metadata g1 container_name file_list None vertical_reference_arg") auto
  with v show ?thesis by (simp add: add_points_def then_do_def)
qed

text \<open>
  Witness for C10: the first add to a new \<^verbatim>\<open>SRGrid\<close> without \<^verbatim>\<open>crs\<close>, and an add
  without \<^verbatim>\<open>crs\<close> after a successful add with EPSG 4326 and the same vertical reference.
\<close>

theorem add_points_crs_none_type_error_witness:
  "(let ops = srtile_ops echo_grid unit_layer;
        g0 = new_srgrid 0 0 1024;
        g1 = snd (add_points one_cell_base ops g0 (Some (two_points 20 30))
                    ''A'' None (Some 4326) (Some ''MLLW''))
    in grid_class g0 \<noteq> BathyGridClass
       \<and> fst (validate_input_data (g0\<lparr>data := map_option compute (Some (two_points 20 30))\<rparr>))
            = None
       \<and> \<not> truthy_str (vertical_reference g0)
       \<and> fst (add_points one_cell_base ops g0 (Some (two_points 20 30)) ''A'' None None None)
            = Some TypeError
       \<and> epsg g1 = Some 4326 \<and> vertical_reference g1 = Some ''MLLW''
       \<and> fst (add_points one_cell_base ops g1 (Some (two_points 20 30)) ''B'' None None
                 (Some ''MLLW'')) = Some TypeError)"
  using add_points_crs_none_type_error
    [of "new_srgrid 0 0 1024" "Some (two_points 20 30)" None one_cell_base
        "srtile_ops echo_grid unit_layer" "''A''" None]
    add_points_crs_none_type_error
    [of "snd (add_points one_cell_base (srtile_ops echo_grid unit_layer) (new_srgrid 0 0 1024)
               (Some (two_points 20 30)) ''A'' None (Some 4326) (Some ''MLLW''))"
        "Some (two_points 20 30)" "Some ''MLLW''" one_cell_base
        "srtile_ops echo_grid unit_layer" "''B''" None]
  by (simp add: example_defs)

text \<open>
  Claim C4.  What the code does: when \<^verbatim>\<open>add_points\<close> completes on a numpy structured
  array, the array has a depth column \<open>z\<close>, and \<^verbatim>\<open>mean_depth\<close> is the arithmetic mean
  of that column if some depth is non-zero and undefined otherwise.  So a batch whose depths
  are all zero leaves \<^verbatim>\<open>mean_depth\<close> undefined although its mean is 0, and a batch
  without a depth column makes \<^verbatim>\<open>add_points\<close> raise: both against the claim.
\<close>

theorem add_points_mean_depth:
  assumes "add_points B ops g (Some d) container_name file_list crs vertical_reference_arg
             = (None, g')"
    and "array_type d = NdArray"
  shows "\<exists>zs. column d ''z'' = Inr zs \<and>
              mean_depth g' = (if np_any zs then Some (np_mean zs) else None)"
proof -
  let ?g0 = "g\<lparr>data := map_option compute (Some d)\<rparr>"
  have d0: "data ?g0 = Some d" using assms(2) by (simp add: compute_def)
  from assms(1) obtain g1 g2 g3 g4 g5 where
    s1: "validate_input_data ?g0 = (None, g1)" and
    s2: "update_metadata g1 container_name file_list crs vertical_reference_arg = (None, g2)" and
    s3: "update_base_grid B g2 = (None, g3)" and
    s4: "update_tiles B ops g3 container_name = (None, g4)" and
    s5: "update_mean_depth g4 = (None, g5)" and
    g': "g' = g5\<lparr>data := None\<rparr>"
    unfolding add_points_def by (elim then_do_cases) auto
  have "data g4 = Some d"
    using validate_input_data_ndarray [OF s1 d0 assms(2)] update_metadata_data [OF s2]
      update_base_grid_keeps [OF s3] update_tiles_keeps [OF s4] by simp
  from update_mean_depth_result [OF s5 this] g' show ?thesis by simp
qed

text \<open>
  Witness for C4, at the failing inputs: two points of depth 0 are added without a fault
  and \<^verbatim>\<open>mean_depth\<close> is undefined, though the mean of the depths is 0; two points
  without a depth column make \<^verbatim>\<open>add_points\<close> raise.
\<close>

theorem add_points_mean_depth_witness:
  "(let ops = srtile_ops echo_grid unit_layer;
        r = add_points one_cell_base ops (new_srgrid 0 0 1024) (Some (two_points 0 0))
              ''A'' None (Some 4326) None
    in r = (None, snd r) \<and> array_type (two_points 0 0) = NdArray
       \<and> column (two_points 0 0) ''z'' = Inr [0, 0]
       \<and> mean_depth (snd r) = None \<and> np_mean [0, 0] = 0
       \<and> fst (add_points one_cell_base ops (new_srgrid 0 0 1024) (Some two_points_without_depth)
              ''A'' None (Some 4326) None) = Some MissingFieldError)"
  using add_points_mean_depth
    [of one_cell_base "srtile_ops echo_grid unit_layer" "new_srgrid 0 0 1024" "two_points 0 0"
        "''A''" None "Some 4326" None
        "snd (add_points one_cell_base (srtile_ops echo_grid unit_layer) (new_srgrid 0 0 1024)
               (Some (two_points 0 0)) ''A'' None (Some 4326) None)"]
  by (simp add: example_defs)

section \<open>Properties of removing points\<close>

lemma remove_points_unregistered:
  "\<not> dict_contains (container g) container_name \<Longrightarrow> remove_points ops g container_name = g"
  by (simp add: remove_points_def)

lemma remove_points_registry:
  "container (remove_points ops g container_name) = dict_pop (container g) container_name"
proof (cases "dict_contains (container g) container_name")
  case True
  then show ?thesis by (simp add: remove_points_def Let_def)
next
  case False
  then have "dict_pop (container g) container_name = container g"
    by (force simp: dict_pop_def dict_contains_def filter_id_conv)
  with False show ?thesis by (simp add: remove_points_def)
qed

text \<open>
  When every occupied slot reports empty after the removal, the lattice is released.
\<close>

lemma remove_points_releases_lattice:
  assumes "dict_contains (container g) container_name"
    and "\<And>ts t. tiles g = Some ts \<Longrightarrow> Some t \<in> set ts \<Longrightarrow>
            tile_is_empty ops (tile_remove_points ops t container_name)"
  shows "tiles (remove_points ops g container_name) = None"
proof (cases "tiles g")
  case None
  then show ?thesis using assms(1) by (simp add: remove_points_def Let_def is_empty_grid_def)
next
  case (Some ts)
  have "\<forall>s\<in>set ts. remove_from_slot ops container_name s = None"
    using assms(2) [OF Some] by (auto simp: remove_from_slot_def Let_def split: option.splits)
  then have "list_all (\<lambda>s. s = None) (map (remove_from_slot ops container_name) ts)"
    by (simp add: list_all_iff)
  then show ?thesis using assms(1) Some
    by (simp add: remove_points_def Let_def is_empty_grid_def)
qed

text \<open>
  On an \<^verbatim>\<open>SRGrid\<close> the only container is added and removed again: the lattice is
  released.
\<close>

lemma remove_points_leaf_grid_example:
  "(let ops = srtile_ops echo_grid unit_layer;
        g1 = snd (add_points one_cell_base ops (new_srgrid 0 0 1024)
                    (Some (two_points 20 30)) ''A'' None (Some 4326) None);
        g2 = remove_points ops g1 ''A''
    in container g1 = [(''A'', [''Unknown''])] \<and> tiles g1 \<noteq> None \<and> container g2 = []
       \<and> tiles g2 = None)"
  by (simp add: example_defs)

text \<open>
  \<^verbatim>\<open>add_points\<close> of a plain \<^verbatim>\<open>BathyGrid\<close>, the class of the tiles of a
  \<^verbatim>\<open>VRGridTile\<close>, never writes the registry: its \<^verbatim>\<open>_update_metadata\<close> is \<^verbatim>\<open>pass\<close>.
\<close>

lemma add_points_bathygrid_registry:
  assumes "grid_class g = BathyGridClass"
    and "add_points B ops g data_arg n fl crs vr = (e, g')"
  shows "container g' = container g"
proof -
  let ?g0 = "g\<lparr>data := map_option compute data_arg\<rparr>"
  have v: "validate_input_data ?g0 = (None, ?g0)"
    using assms(1) by (simp add: validate_input_data_def)
  have m: "update_metadata ?g0 n fl crs vr = (None, ?g0)"
    using assms(1) by (simp add: update_metadata_def)
  have "then_do (update_base_grid B ?g0) (\<lambda>g3.
     then_do (update_tiles B ops g3 n) (\<lambda>g4.
     then_do (update_mean_depth g4) (\<lambda>g5.
     (None, g5\<lparr>data := None\<rparr>)))) = (e, g')"
    using assms(2) by (simp add: add_points_def then_do_def v m)
  from add_points_tail_container [OF this] show ?thesis by simp
qed

text \<open>
  Claim C5.  What the code does on a grid of nested grids: when the nested grids in the
  occupied slots have an empty registry (as \<^verbatim>\<open>add_points\<close> leaves them) and hold
  points, removing a registered container drops the registry entry and leaves every slot
  as it was.  The removal forwarded to a nested grid is a no-op, the slot is not left
  empty, and the lattice is not released; the claim asks for the release when the removed
  container was the only one.
\<close>

theorem remove_points_nested_grid_keeps_lattice:
  assumes "dict_contains (container g) container_name"
    and "tiles g = Some ts"
    and "\<exists>nested. Some nested \<in> set ts"
    and "\<forall>nested. Some nested \<in> set ts \<longrightarrow> container nested = [] \<and> \<not> is_empty_grid nested"
  shows "container (remove_points (bathygrid_ops N B sub_ops) g container_name)
           = dict_pop (container g) container_name
         \<and> tiles (remove_points (bathygrid_ops N B sub_ops) g container_name) = Some ts"
proof -
  let ?ops = "bathygrid_ops N B sub_ops"
  have slot: "remove_from_slot ?ops container_name s = s" if "s \<in> set ts" for s
  proof (cases s)
    case None
    then show ?thesis by (simp add: remove_from_slot_def)
  next
    case (Some nested)
    with that assms(4) have n: "container nested = []" "\<not> is_empty_grid nested" by auto
    then have "remove_points sub_ops nested container_name = nested"
      by (simp add: remove_points_unregistered dict_contains_def)
    with n Some show ?thesis
      by (simp add: remove_from_slot_def bathygrid_ops_def)
  qed
  then have m: "map (remove_from_slot ?ops container_name) ts = ts"
    by (simp add: map_idI)
  have ne: "\<not> list_all (\<lambda>s. s = None) ts"
    using assms(3) by (auto simp: list_all_iff)
  show ?thesis
    using assms(1,2) m ne by (simp add: remove_points_def Let_def is_empty_grid_def)
qed

text \<open>
  Witness for C5, at the failing input: container A is added to a new \<^verbatim>\<open>VRGridTile\<close>
  and removed again.  Before the removal A is the only registered container and the one
  occupied slot holds a nested grid with an empty registry; after it the registry is empty
  and the lattice is still allocated and occupied.
\<close>

theorem remove_points_nested_grid_keeps_lattice_witness:
  "(let ops = bathygrid_ops unit_numpy one_cell_base (srtile_ops echo_grid unit_layer);
        g1 = snd (add_points one_cell_base ops (new_vrgridtile 0 0 1024 128)
                    (Some (two_points 20 30)) ''A'' None (Some 4326) None);
        g2 = remove_points ops g1 ''A''
    in container g1 = [(''A'', [''Unknown''])] \<and> dict_contains (container g1) ''A''
       \<and> (\<exists>nested. tiles g1 = Some [Some nested] \<and> container nested = []
             \<and> \<not> is_empty_grid nested)
       \<and> container g2 = [] \<and> tiles g2 = tiles g1 \<and> tiles g2 \<noteq> None \<and> \<not> is_empty_grid g2)"
proof -
  let ?ops = "bathygrid_ops unit_numpy one_cell_base (srtile_ops echo_grid unit_layer)"
  define g1 where "g1 = snd (add_points one_cell_base ?ops (new_vrgridtile 0 0 1024 128)
                    (Some (two_points 20 30)) ''A'' None (Some 4326) None)"
  have c1: "container g1 = [(''A'', [''Unknown''])]"
    by (simp add: g1_def example_defs)
  then have reg: "dict_contains (container g1) ''A''"
    by (simp add: dict_contains_def)
  have "\<exists>nested. tiles g1 = Some [Some nested] \<and> container nested = [] \<and> \<not> is_empty_grid nested"
    by (simp add: g1_def example_defs)
  then obtain nested where
    n: "tiles g1 = Some [Some nested]" "container nested = []" "\<not> is_empty_grid nested"
    by blast
  have "container (remove_points ?ops g1 ''A'') = dict_pop (container g1) ''A''
        \<and> tiles (remove_points ?ops g1 ''A'') = Some [Some nested]"
    using remove_points_nested_grid_keeps_lattice [OF reg n(1), of unit_numpy one_cell_base
        "srtile_ops echo_grid unit_layer"] n(2,3)
    by simp
  then have "container (remove_points ?ops g1 ''A'') = []"
    "tiles (remove_points ?ops g1 ''A'') = tiles g1"
    "\<not> is_empty_grid (remove_points ?ops g1 ''A'')"
    using c1 n(1) by (simp_all add: dict_pop_def is_empty_grid_def)
  with c1 reg n show ?thesis
    unfolding Let_def g1_def [symmetric] by simp
qed

section \<open>Properties of layer access\<close>

text \<open>
  \<^verbatim>\<open>get_layer_by_name\<close> on a gridded grid: with the resolution omitted and several
  resolutions present it raises AmbiguousResolutionFault; with a resolution named (and not
  zero) it goes on to build the raster with that resolution, and filling the raster from
  leaf tiles raises no AmbiguousResolutionFault unless a collaborator does.
\<close>

lemma get_layer_by_name_omitted_ambiguous:
  assumes "no_grid ops g = Inr False" "1 < length (resolutions g)" "\<not> truthy_float resolution"
  shows "get_layer_by_name N B ops g layer resolution = Inl AmbiguousResolutionFault"
  using assms by (simp add: get_layer_by_name_def resolve_resolution_def sum_bind_def)

lemma get_layer_by_name_named:
  assumes "no_grid ops g = Inr False" "resolution = Some r" "r \<noteq> 0"
  shows "get_layer_by_name N B ops g layer resolution =
           sum_bind (build_layer_grid N (lat g) r) (\<lambda>arr.
             case tiles g of
               None \<Rightarrow> Inl AttributeError
             | Some ts \<Rightarrow> fill_layer N B ops (lat g) layer r (enumerate 0 ts) arr)"
  using assms
  by (simp add: get_layer_by_name_def resolve_resolution_def sum_bind_def truthy_float_def)

lemma fill_layer_leaf_not_ambiguous:
  assumes "\<And>t. srtile_get_layer t layer r \<noteq> Inl AmbiguousResolutionFault"
    and "\<And>arr c r' n block. np_assign_block N arr c r' n block \<noteq> Inl AmbiguousResolutionFault"
  shows "fill_layer N B (srtile_ops srtile_grid srtile_get_layer) l layer r slots arr
           \<noteq> Inl AmbiguousResolutionFault"
proof (induction slots arbitrary: arr)
  case Nil
  then show ?case by simp
next
  case (Cons s slots)
  obtain cnt slot where s: "s = (cnt, slot)" by (cases s)
  show ?case
  proof (cases slot)
    case None
    then show ?thesis using s Cons.IH by simp
  next
    case (Some t)
    then show ?thesis
      using s Cons.IH assms
      by (auto simp: sum_bind_def srtile_ops_def Let_def split: prod.splits sum.splits)
  qed
qed

text \<open>
  Claim C6.  What the code does in \<^verbatim>\<open>return_surf_xyz\<close>: on a gridded grid with more than
  one resolution it raises AmbiguousResolutionFault whatever the resolution argument is,
  named or omitted.  A named resolution passes the test of \<^verbatim>\<open>return_surf_xyz\<close> itself,
  but the call \<^verbatim>\<open>self.get_layer_trimmed(layer)\<close> does not pass it on, and
  \<^verbatim>\<open>get_layer_by_name\<close> then runs with the resolution omitted.  The claim says that a
  named resolution never leads to the ambiguity fault.
\<close>

theorem return_surf_xyz_ambiguous_with_named_resolution:
  assumes "no_grid ops g = Inr False" and "1 < length (resolutions g)"
  shows "return_surf_xyz N B ops g layer resolution cell_boundaries
           = Inl AmbiguousResolutionFault"
proof (cases "truthy_float resolution")
  case False
  with assms show ?thesis
    by (simp add: return_surf_xyz_def resolve_resolution_def sum_bind_def)
next
  case True
  then obtain r where r: "resolve_resolution g resolution = Inr r"
    by (auto simp: resolve_resolution_def truthy_float_def split: option.splits)
  have "get_layer_by_name N B ops g layer None = Inl AmbiguousResolutionFault"
    using assms by (simp add: get_layer_by_name_omitted_ambiguous truthy_float_def)
  then have "get_layer_trimmed N B ops g layer None = Inl AmbiguousResolutionFault"
    by (simp add: get_layer_trimmed_def sum_bind_def)
  with assms(1) r show ?thesis
    by (simp add: return_surf_xyz_def sum_bind_def)
qed

text \<open>
  Witness for C6, at the failing input: a gridded \<^verbatim>\<open>SRGrid\<close> with the resolutions 1 and
  2, asked for the depth surface at the named resolution 1.
\<close>

theorem return_surf_xyz_ambiguous_with_named_resolution_witness:
  "(let ops = srtile_ops echo_grid unit_layer;
        g = (new_srgrid 0 0 1024)
              \<lparr>tiles := Some [Some (leaf_tile [(''A'', two_points 20 30)] [(''depth'', ())])],
               resolutions := [1, 2]\<rparr>
    in no_grid ops g = Inr False \<and> 1 < length (resolutions g)
       \<and> return_surf_xyz unit_numpy one_cell_base ops g ''depth'' (Some 1) True
            = Inl AmbiguousResolutionFault)"
  using return_surf_xyz_ambiguous_with_named_resolution
    [of "srtile_ops echo_grid unit_layer"
        "(new_srgrid 0 0 1024)
              \<lparr>tiles := Some [Some (leaf_tile [(''A'', two_points 20 30)] [(''depth'', ())])],
               resolutions := [1, 2]\<rparr>"
        unit_numpy one_cell_base "''depth''" "Some 1" True]
  by (simp add: no_grid_def first_occupied_def srtile_ops_def leaf_tile_def new_srgrid_def
      new_bathygrid_def sum_bind_def)

section \<open>Properties of serial gridding\<close>

text \<open>The calls made by the loop depend on the occupied slots only.\<close>

lemma grid_regular_loop_calls_occupied:
  "snd (snd (snd (grid_regular_loop ops a c ts r rs))) =
   snd (snd (snd (grid_regular_loop ops a c (filter (\<lambda>s. s \<noteq> None) ts) r rs)))"
proof (induction ts arbitrary: r rs)
  case Nil
  then show ?case by simp
next
  case (Cons s ts)
  show ?case
  proof (cases s)
    case None
    then show ?thesis using Cons.IH [of r rs] by (simp add: case_prod_beta)
  next
    case (Some t)
    then show ?thesis
      using Cons.IH by (simp add: case_prod_beta split: sum.splits)
  qed
qed

text \<open>
  If every tile reports the resolution it was given, every call carries the resolution the
  loop started with.
\<close>

lemma grid_regular_loop_calls_echo:
  assumes "\<And>t r. Some t \<in> set ts \<Longrightarrow> fst (tile_grid ops t a r c) = Inr r"
  shows "set (snd (snd (snd (grid_regular_loop ops a c ts res rs)))) \<subseteq> {(a, res, c)}"
  using assms
proof (induction ts arbitrary: rs)
  case Nil
  then show ?case by simp
next
  case (Cons s ts)
  show ?case
  proof (cases s)
    case None
    then show ?thesis using Cons.IH [of rs] Cons.prems by (simp add: case_prod_beta)
  next
    case (Some t)
    then have "fst (tile_grid ops t a res c) = Inr res" using Cons.prems by simp
    then obtain t' where "tile_grid ops t a res c = (Inr res, t')"
      by (cases "tile_grid ops t a res c") auto
    then show ?thesis
      using Some Cons.IH [of "if res \<in> set rs then rs else rs @ [res]"] Cons.prems
      by (simp add: case_prod_beta)
  qed
qed

text \<open>
  Claim C3.  What the code does in serial mode: the first occupied slot is gridded with
  the resolution of the call, and the second occupied slot with the resolution the first
  one reported, whatever that is.  The claim says that every slot receives the same
  resolution, uninfluenced by what earlier slots reported; the parallel path does pass
  the same resolution to every slot.
\<close>

theorem grid_regular_passes_reported_resolution:
  assumes "tiles g = Some ts"
    and "filter (\<lambda>s. s \<noteq> None) ts = Some t1 # Some t2 # rest"
    and "fst (tile_grid ops t1 algorithm resolution clear_existing) = Inr r1"
  shows "take 2 (grid_regular_calls ops g algorithm resolution clear_existing)
           = [(algorithm, resolution, clear_existing), (algorithm, r1, clear_existing)]"
proof -
  obtain t1' where t1: "tile_grid ops t1 algorithm resolution clear_existing = (Inr r1, t1')"
    using assms(3) by (cases "tile_grid ops t1 algorithm resolution clear_existing") auto
  have "grid_regular_calls ops g algorithm resolution clear_existing =
          snd (snd (snd (grid_regular_loop ops algorithm clear_existing
                           (Some t1 # Some t2 # rest) resolution [])))"
    using assms(1,2)
      grid_regular_loop_calls_occupied [of ops algorithm clear_existing ts resolution "[]"]
    by (simp add: grid_regular_calls_def case_prod_beta)
  then show ?thesis using t1
    by (cases "tile_grid ops t2 algorithm r1 clear_existing")
       (simp add: case_prod_beta split: sum.splits)
qed

text \<open>
  Witness for C3, at the failing input: two occupied slots whose tiles grid at their own
  resolution 2 and report it.  \<^verbatim>\<open>grid\<close> selects resolution 1 for the mean depth 25; the
  first slot is called with 1, the second with 2.
\<close>

theorem grid_regular_passes_reported_resolution_witness:
  "(let ops = srtile_ops (own_resolution_grid 2) unit_layer;
        t = leaf_tile [(''A'', two_points 20 30)] [];
        ts = [Some t, None, Some t];
        g = (new_srgrid 0 0 1024)\<lparr>tiles := Some ts, mean_depth := Some 25\<rparr>
    in tiles g = Some ts \<and> filter (\<lambda>s. s \<noteq> None) ts = [Some t, Some t]
       \<and> fst (tile_grid ops t ''mean'' 1 False) = Inr 2
       \<and> fst (grid one_cell_base ops g ''mean'' None False False) = Inr 1
       \<and> grid_regular_calls ops g ''mean'' 1 False = [(''mean'', 1, False), (''mean'', 2, False)])"
  using grid_regular_passes_reported_resolution
    [of "(new_srgrid 0 0 1024)\<lparr>tiles := Some [Some (leaf_tile [(''A'', two_points 20 30)] []), None,
                                                Some (leaf_tile [(''A'', two_points 20 30)] [])],
                                 mean_depth := Some 25\<rparr>"
        "[Some (leaf_tile [(''A'', two_points 20 30)] []), None,
          Some (leaf_tile [(''A'', two_points 20 30)] [])]"
        "leaf_tile [(''A'', two_points 20 30)] []" "leaf_tile [(''A'', two_points 20 30)] []" "[]"
        "srtile_ops (own_resolution_grid 2) unit_layer" "''mean''" 1 False 2]
  by (simp add: grid_regular_calls_def srtile_ops_def own_resolution_grid_def new_srgrid_def
      new_bathygrid_def grid_def grid_regular_def is_empty_grid_def calculate_resolution_def
      depth_resolution_lookup_def np_argmax_def dict_getitem_def np_sort_unique_def)

section \<open>Properties of parallel gridding\<close>

lemma jobs_of_simps:
  "jobs_of a r c [] = []"
  "jobs_of a r c (None # ts) = jobs_of a r c ts"
  "jobs_of a r c (Some t # ts) = (t, a, r, c) # jobs_of a r c ts"
  by (simp_all add: jobs_of_def)







text \<open>
  The predicate does reject overlapping batches: a second batch mapped while the first is
  in flight, with no call between them that awaits the first.
\<close>

lemma one_batch_in_flight_rejects_overlap:
  "\<not> one_batch_in_flight [] [Scatter b1, MapCall b1, Print 2 2, MapCall b2]"
  by simp





text \<open>
  In \<^verbatim>\<open>_grid_parallel\<close> the batch size is the number of workers of the client; without
  workers nothing is submitted inside the loop and all jobs form one batch after it.
\<close>

lemma dispatch_loop_no_workers:
  "chunk_index st = length (data_for_workers st) \<Longrightarrow>
   dispatch_loop 0 tot a r c ts st =
     st\<lparr>data_for_workers := data_for_workers st @ jobs_of a r c ts,
        chunk_index := chunk_index st + length (jobs_of a r c ts)\<rparr>"
proof (induction ts arbitrary: st)
  case Nil
  then show ?case by (simp add: jobs_of_simps)
next
  case (Cons s ts)
  then show ?case by (cases s) (simp_all add: jobs_of_simps Let_def)
qed

section \<open>Properties of the layer names\<close>

lemma first_occupied_map:
  "first_occupied (map (map_option f) ts) = map_option f (first_occupied ts)"
proof (induction ts)
  case Nil
  then show ?case by (simp add: first_occupied_def)
next
  case (Cons s ts)
  then show ?case by (cases s) (simp_all add: first_occupied_def)
qed

lemma last_occupied_map:
  "last_occupied (map (map_option f) ts) = map_option f (last_occupied ts)"
  using first_occupied_map [of f "rev ts"] by (simp add: last_occupied_def rev_map)

text \<open>
  Claim C9 (as amended).  On a grid of leaf tiles \<^verbatim>\<open>return_layer_names\<close> raises
  TypeError exactly when the first occupied slot, in row-major order, is gridded (its
  \<^verbatim>\<open>cells\<close> is not empty); it returns the empty list when there is no lattice, when no
  slot is occupied and when the first occupied slot is not gridded.  On a grid of nested
  grids the first occupied slot is judged by its last occupied sub-slot, and where a leaf
  grid raises TypeError the attribute \<^verbatim>\<open>cells\<close> is missing: AttributeError.
\<close>

theorem return_layer_names_first_occupied:
  "return_layer_names (srtile_ops srtile_grid srtile_get_layer) g =
     (case tiles g of
        None \<Rightarrow> Inr []
      | Some ts \<Rightarrow>
          (case first_occupied ts of
             None \<Rightarrow> Inr []
           | Some tile \<Rightarrow> if cells tile = [] then Inr [] else Inl TypeError))
   \<and>
   return_layer_names (bathygrid_ops N B (srtile_ops srtile_grid srtile_get_layer)) h =
     (case tiles h of
        None \<Rightarrow> Inr []
      | Some ts \<Rightarrow>
          (case first_occupied ts of
             None \<Rightarrow> Inr []
           | Some nested \<Rightarrow>
               (case tiles nested of
                  None \<Rightarrow> Inl AttributeError
                | Some subs \<Rightarrow>
                    (case last_occupied subs of
                       None \<Rightarrow> Inl AttributeError
                     | Some tile \<Rightarrow> if cells tile = [] then Inr [] else Inl AttributeError))))"
proof (intro conjI)
  show "return_layer_names (srtile_ops srtile_grid srtile_get_layer) g =
     (case tiles g of
        None \<Rightarrow> Inr []
      | Some ts \<Rightarrow>
          (case first_occupied ts of
             None \<Rightarrow> Inr []
           | Some tile \<Rightarrow> if cells tile = [] then Inr [] else Inl TypeError))"
    by (simp add: return_layer_names_def no_grid_def srtile_ops_def sum_bind_def
        split: option.splits)
next
  show "return_layer_names (bathygrid_ops N B (srtile_ops srtile_grid srtile_get_layer)) h =
     (case tiles h of
        None \<Rightarrow> Inr []
      | Some ts \<Rightarrow>
          (case first_occupied ts of
             None \<Rightarrow> Inr []
           | Some nested \<Rightarrow>
               (case tiles nested of
                  None \<Rightarrow> Inl AttributeError
                | Some subs \<Rightarrow>
                    (case last_occupied subs of
                       None \<Rightarrow> Inl AttributeError
                     | Some tile \<Rightarrow> if cells tile = [] then Inr [] else Inl AttributeError))))"
    by (simp add: return_layer_names_def no_grid_def srtile_ops_def bathygrid_ops_def
        sum_bind_def last_occupied_map split: option.splits)
qed

text \<open>
  Claim C9 as stated fails: a grid whose first occupied slot is not gridded and whose
  second is gridded has an occupied, gridded slot, and \<^verbatim>\<open>return_layer_names\<close> returns
  the empty list; so does a grid whose only occupied slot is not gridded, which is not a
  grid without occupied slots.
\<close>

theorem return_layer_names_counterexample:
  "(let ops = srtile_ops echo_grid unit_layer;
        ungridded = leaf_tile [(''A'', two_points 20 30)] [];
        gridded = leaf_tile [(''A'', two_points 20 30)] [(''depth'', ())];
        g = (new_srgrid 0 0 1024)\<lparr>tiles := Some [Some ungridded, Some gridded]\<rparr>;
        h = (new_srgrid 0 0 1024)\<lparr>tiles := Some [Some ungridded]\<rparr>
    in cells gridded \<noteq> [] \<and> return_layer_names ops g = Inr []
       \<and> return_layer_names ops h = Inr [])"
  by (simp add: return_layer_names_def no_grid_def srtile_ops_def sum_bind_def
      first_occupied_def leaf_tile_def new_srgrid_def new_bathygrid_def)

end
